theory Spec2Isabelle
  imports Main "HOL-Library.AList"
begin

section \<open>Shared data of the proctoring stream protocol\<close>

text \<open>
  The development embeds two React hooks of the repository: the viewer hook
  \<^verbatim>\<open>useProctoringStreams\<close> (admin dashboard) and the WebRTC part of the publisher hook
  \<^verbatim>\<open>useAICameraMonitor\<close> (exam taker).  Both are event driven: every handler runs to its
  next \<^verbatim>\<open>await\<close> without interruption, so a handler is a function on the hook's
  state, and an \<^verbatim>\<open>await\<close> splits a handler into the part before it and a continuation
  that the environment resumes later with the outcome of the awaited promise.

  Browser objects are kept in an explicit store: a peer connection is an address into the
  store \<open>pcs\<close>, because closures and registry entries alias the same object; \<open>pcCount\<close>
  is the number of connections constructed so far, and the next one gets that address.
  The user-facing messages of the source are Vietnamese; they are written here without
  diacritics.
\<close>

type_synonym SessionId = string
type_synonym SocketId = string
type_synonym ExamId = string
type_synonym UserId = string
type_synonym RTCIceCandidateInit = string

datatype RTCSdpType = SdpOffer | SdpPranswer | SdpAnswer | SdpRollback

record RTCSessionDescriptionInit =
  sdp_type :: RTCSdpType
  sdp :: string

datatype RTCPeerConnectionState =
  StateNew | StateConnecting | StateConnected | StateDisconnected | StateFailed | StateClosed

record MediaStream =
  ms_id :: nat
  ms_tracks :: "nat list"

text \<open>
  A peer connection object.  A handler property holds \<open>None\<close> for \<^verbatim>\<open>null\<close> and otherwise
  the variables its closure captured.  \<open>isClosed\<close> is the connection's closed flag.
\<close>

record ('t, 'i, 'c) RTCPeerConnection =
  ontrack :: "'t option"
  onicecandidate :: "'i option"
  onconnectionstatechange :: "'c option"
  isClosed :: bool
  remoteDescription :: "RTCSessionDescriptionInit option"
  localDescription :: "RTCSessionDescriptionInit option"
  remoteCandidates :: "RTCIceCandidateInit option list"
  localTracks :: "nat list"

definition new_RTCPeerConnection :: "('t, 'i, 'c) RTCPeerConnection" where
  "new_RTCPeerConnection =
     \<lparr>ontrack = None, onicecandidate = None, onconnectionstatechange = None, isClosed = False,
      remoteDescription = None, localDescription = None, remoteCandidates = [],
      localTracks = []\<rparr>"

definition addIceCandidate ::
  "RTCIceCandidateInit option \<Rightarrow> ('t, 'i, 'c) RTCPeerConnection \<Rightarrow> ('t, 'i, 'c) RTCPeerConnection" where
  "addIceCandidate candidate p = p\<lparr>remoteCandidates := remoteCandidates p @ [candidate]\<rparr>"

text \<open>The calls made on a peer connection that the log of a hook records, in program order.\<close>

datatype pc_call =
    AssignOntrack bool
  | AssignOnicecandidate bool
  | AssignOnconnectionstatechange bool
  | CallClose

text \<open>
  The outcome of an awaited promise.  \<open>Rejected m\<close> carries \<^verbatim>\<open>error.message\<close> when the
  rejection is an \<^verbatim>\<open>Error\<close> instance.
\<close>

datatype 'a outcome = Resolved 'a | Rejected "string option"

section \<open>Viewer: useProctoringStreams\<close>

datatype LiveStreamStatus = Idle | Waiting | Connecting | Live | Error

record StreamState =
  status :: LiveStreamStatus
  stream :: "MediaStream option"
  lastUpdated :: "nat option"
  error :: "string option"
  remoteSocketId :: "SocketId option"

text \<open>
  The fields of \<^verbatim>\<open>ProctoringSession\<close> that the hook reads (the type itself is declared
  outside the given sources).  \<open>session_userId\<close> is the value of \<^verbatim>\<open>String(session.userId)\<close>.
\<close>

record ProctoringSession =
  session_id :: SessionId
  session_examId :: ExamId
  session_userId :: UserId
  session_active :: bool

record PeerInfo =
  pc :: nat
  peer_remoteSocketId :: SocketId
  peer_examId :: ExamId

datatype viewer_emit =
    ProctorRequestStream UserId
  | WebrtcAnswer RTCSessionDescriptionInit SocketId
  | ViewerIceCandidate RTCIceCandidateInit SocketId

type_synonym viewer_pc = "(SessionId \<times> SocketId, ExamId \<times> SocketId, SessionId) RTCPeerConnection"

text \<open>
  The state of the viewer hook.  \<open>streamStates\<close> is the React state with every updater
  passed to \<^verbatim>\<open>setStreamStates\<close> applied in call order, that is the value the next render
  commits; \<open>streamStatesRef\<close> is the copy of the last committed value that the handlers
  read.  The refs \<open>socketsRef\<close>, \<open>peersRef\<close>, \<open>remoteSessionMap\<close>, \<open>sessionsRef\<close> and
  \<open>requestedSessionsRef\<close> are those of the source.  \<open>pendingOffers\<close> holds, per
  connection, the variables of an offer handler suspended in its negotiation.
  \<open>stoppedTracks\<close> are the media tracks on which \<^verbatim>\<open>stop()\<close> was called, \<open>emitted\<close> the
  events sent on the sockets and \<open>pcLog\<close> the observer assignments and \<^verbatim>\<open>close()\<close> calls
  on the connections, all in program order.
\<close>

record viewer =
  streamStates :: "SessionId \<rightharpoonup> StreamState"
  streamStatesRef :: "SessionId \<rightharpoonup> StreamState"
  socketsRef :: "ExamId set"
  peersRef :: "SessionId \<rightharpoonup> PeerInfo"
  remoteSessionMap :: "SocketId \<rightharpoonup> SessionId"
  sessionsRef :: "ProctoringSession list"
  requestedSessionsRef :: "SessionId set"
  pcs :: "nat \<Rightarrow> viewer_pc"
  pcCount :: nat
  pendingOffers :: "nat \<rightharpoonup> (ExamId \<times> SessionId \<times> SocketId \<times> RTCSessionDescriptionInit)"
  stoppedTracks :: "nat set"
  emitted :: "(ExamId \<times> viewer_emit) list"
  pcLog :: "(nat \<times> pc_call) list"

definition viewer_init :: viewer where
  "viewer_init =
     \<lparr>streamStates = Map.empty, streamStatesRef = Map.empty, socketsRef = {},
      peersRef = Map.empty, remoteSessionMap = Map.empty, sessionsRef = [],
      requestedSessionsRef = {}, pcs = (\<lambda>a. new_RTCPeerConnection), pcCount = 0,
      pendingOffers = Map.empty, stoppedTracks = {},
      emitted = [], pcLog = []\<rparr>"

definition MSG_VIDEO_NOT_ESTABLISHED :: string where
  "MSG_VIDEO_NOT_ESTABLISHED = ''Khong the thiet lap ket noi video''"

definition MSG_VIDEO_INTERRUPTED :: string where
  "MSG_VIDEO_INTERRUPTED = ''Ket noi video da bi gian doan''"

definition MSG_SERVER_LOST :: string where
  "MSG_SERVER_LOST = ''Mat ket noi toi may chu giam sat''"

definition MSG_RECONNECT_FAILED :: string where
  "MSG_RECONNECT_FAILED = ''Khong the ket noi lai voi may chu giam sat''"

definition MSG_STUDENT_LEFT :: string where
  "MSG_STUDENT_LEFT = ''Thi sinh da ngat ket noi''"

text \<open>
  \<^verbatim>\<open>teardownPeer\<close>.  The statements of its \<^verbatim>\<open>try\<close> block set the three observers of the
  connection to \<^verbatim>\<open>null\<close> and then close it; \<open>teardown_calls\<close> is their order.  The
  registry entry is deleted, and the mapping entry of the remote socket id is deleted when
  that id is truthy, that is not the empty string.  Finally the tracks of the stream in the
  session's snapshot entry are stopped.
\<close>

definition detach_and_close :: "('t, 'i, 'c) RTCPeerConnection \<Rightarrow> ('t, 'i, 'c) RTCPeerConnection" where
  "detach_and_close p =
     p\<lparr>ontrack := None, onicecandidate := None, onconnectionstatechange := None,
       isClosed := True\<rparr>"

text \<open>A connection is torn down when it is closed and none of its observers is attached.\<close>

definition torn_down :: "('t, 'i, 'c) RTCPeerConnection \<Rightarrow> bool" where
  "torn_down p \<longleftrightarrow>
     isClosed p \<and> ontrack p = None \<and> onicecandidate p = None \<and> onconnectionstatechange p = None"

definition teardown_calls :: "nat \<Rightarrow> (nat \<times> pc_call) list" where
  "teardown_calls a =
     [(a, AssignOntrack False), (a, AssignOnicecandidate False),
      (a, AssignOnconnectionstatechange False), (a, CallClose)]"

definition teardownPeer :: "SessionId \<Rightarrow> viewer \<Rightarrow> viewer" where
  "teardownPeer sessionId s =
     (let s1 =
        (case peersRef s sessionId of
           None \<Rightarrow> s
         | Some peerInfo \<Rightarrow>
             s\<lparr>pcs := (pcs s)(pc peerInfo := detach_and_close (pcs s (pc peerInfo))),
               pcLog := pcLog s @ teardown_calls (pc peerInfo),
               peersRef := (peersRef s)(sessionId := None),
               remoteSessionMap :=
                 (if peer_remoteSocketId peerInfo \<noteq> []
                  then (remoteSessionMap s)(peer_remoteSocketId peerInfo := None)
                  else remoteSessionMap s)\<rparr>)
      in case streamStatesRef s sessionId of
           None \<Rightarrow> s1
         | Some st \<Rightarrow>
             (case stream st of
                None \<Rightarrow> s1
              | Some existingStream \<Rightarrow>
                  s1\<lparr>stoppedTracks := stoppedTracks s1 \<union> set (ms_tracks existingStream)\<rparr>))"

definition stopStream :: "SessionId \<Rightarrow> LiveStreamStatus \<Rightarrow> string option \<Rightarrow> viewer \<Rightarrow> viewer" where
  "stopStream sessionId nextStatus errorMessage s =
     (let s1 = teardownPeer sessionId s;
          s2 = s1\<lparr>requestedSessionsRef := requestedSessionsRef s1 - {sessionId}\<rparr>
      in s2\<lparr>streamStates := (streamStates s2)(sessionId \<mapsto>
              \<lparr>status = nextStatus, stream = None,
               lastUpdated = (case streamStates s2 sessionId of
                                None \<Rightarrow> None | Some prev \<Rightarrow> lastUpdated prev),
               error = errorMessage, remoteSocketId = None\<rparr>)\<rparr>)"

text \<open>
  \<^verbatim>\<open>ensureSocket\<close>: one signaling socket per exam, created on first use.  The handlers
  registered on the socket are the functions \<open>on...\<close> below, each closed over \<open>examId\<close>.
\<close>

definition ensureSocket :: "ExamId \<Rightarrow> viewer \<Rightarrow> viewer" where
  "ensureSocket examId s = s\<lparr>socketsRef := insert examId (socketsRef s)\<rparr>"

definition blocks_request :: "StreamState option \<Rightarrow> bool" where
  "blocks_request currentState =
     (case currentState of
        None \<Rightarrow> False
      | Some cur \<Rightarrow> status cur = Waiting \<or> status cur = Connecting \<or> status cur = Live)"

definition requestStream :: "SessionId \<Rightarrow> bool \<Rightarrow> viewer \<Rightarrow> viewer" where
  "requestStream sessionId force s =
     (case List.find (\<lambda>x. session_id x = sessionId) (sessionsRef s) of
        None \<Rightarrow> s
      | Some session \<Rightarrow>
          if \<not> force \<and> blocks_request (streamStatesRef s sessionId) then s
          else
            (let s1 = ensureSocket (session_examId session) s;
                 s2 = s1\<lparr>requestedSessionsRef := insert sessionId (requestedSessionsRef s1)\<rparr>;
                 s3 = s2\<lparr>streamStates := (streamStates s2)(sessionId \<mapsto>
                        \<lparr>status = Waiting,
                         stream = (case streamStates s2 sessionId of
                                     None \<Rightarrow> None | Some prev \<Rightarrow> stream prev),
                         lastUpdated = (case streamStates s2 sessionId of
                                          None \<Rightarrow> None | Some prev \<Rightarrow> lastUpdated prev),
                         error = None, remoteSocketId = None\<rparr>)\<rparr>
             in s3\<lparr>emitted := emitted s3 @
                    [(session_examId session, ProctorRequestStream (session_userId session))]\<rparr>))"

definition stop_related :: "(ProctoringSession \<Rightarrow> bool) \<Rightarrow> string \<Rightarrow> viewer \<Rightarrow> viewer" where
  "stop_related related msg s =
     fold (\<lambda>session. stopStream (session_id session) Error (Some msg))
       (filter related (sessionsRef s)) s"

definition onReconnectFailed :: "ExamId \<Rightarrow> viewer \<Rightarrow> viewer" where
  "onReconnectFailed examId s =
     stop_related (\<lambda>session. session_examId session = examId) MSG_RECONNECT_FAILED s"

definition onDisconnect :: "ExamId \<Rightarrow> viewer \<Rightarrow> viewer" where
  "onDisconnect examId s =
     stop_related (\<lambda>session. session_examId session = examId) MSG_SERVER_LOST s"

definition onUserLeft :: "ExamId \<Rightarrow> UserId \<Rightarrow> viewer \<Rightarrow> viewer" where
  "onUserLeft examId userId s =
     stop_related (\<lambda>session. session_examId session = examId \<and> session_userId session = userId)
       MSG_STUDENT_LEFT s"

text \<open>
  \<^verbatim>\<open>webrtc_offer_received\<close>, up to its first \<^verbatim>\<open>await\<close>: the old link of the session is
  torn down, a fresh connection is allocated and registered, its three observers are
  attached, and the negotiation (\<^verbatim>\<open>setRemoteDescription\<close>, \<^verbatim>\<open>createAnswer\<close>,
  \<^verbatim>\<open>setLocalDescription\<close>) is left pending on the new connection.
\<close>

definition onOfferReceived ::
  "ExamId \<Rightarrow> RTCSessionDescriptionInit \<Rightarrow> SocketId \<Rightarrow> UserId \<Rightarrow> viewer \<Rightarrow> viewer" where
  "onOfferReceived examId offer senderSocketId studentId s =
     (case List.find (\<lambda>x. session_examId x = examId \<and> session_userId x = studentId)
             (sessionsRef s) of
        None \<Rightarrow> s
      | Some targetSession \<Rightarrow>
          (let sessionId = session_id targetSession;
               s1 = teardownPeer sessionId s;
               a = pcCount s1
           in s1\<lparr>pcs := (pcs s1)(a :=
                   new_RTCPeerConnection
                      \<lparr>ontrack := Some (sessionId, senderSocketId),
                       onicecandidate := Some (examId, senderSocketId),
                       onconnectionstatechange := Some sessionId\<rparr>),
                 pcCount := Suc a,
                 peersRef := (peersRef s1)(sessionId \<mapsto>
                   \<lparr>pc = a, peer_remoteSocketId = senderSocketId, peer_examId = examId\<rparr>),
                 remoteSessionMap := (remoteSessionMap s1)(senderSocketId \<mapsto> sessionId),
                 pcLog := pcLog s1 @
                   [(a, AssignOntrack True), (a, AssignOnicecandidate True),
                    (a, AssignOnconnectionstatechange True)],
                 pendingOffers := (pendingOffers s1)(a \<mapsto>
                   (examId, sessionId, senderSocketId, offer))\<rparr>))"

text \<open>
  The continuation of \<^verbatim>\<open>webrtc_offer_received\<close>.  \<open>Resolved answer\<close>: the three awaited
  calls succeeded; \<open>Rejected m\<close>: one of them threw and the \<^verbatim>\<open>catch\<close> block runs.
  By the WebRTC operations chain, a connection that has been closed never settles the
  operations pending on it, so the continuation of a closed connection is never resumed.
\<close>

definition onOfferSettled :: "nat \<Rightarrow> RTCSessionDescriptionInit outcome \<Rightarrow> viewer \<Rightarrow> viewer" where
  "onOfferSettled a result s =
     (case pendingOffers s a of
        None \<Rightarrow> s
      | Some (examId, sessionId, senderSocketId, offer) \<Rightarrow>
          if pcCount s \<le> a \<or> isClosed (pcs s a) then s
          else
            (let s1 = s\<lparr>pendingOffers := (pendingOffers s)(a := None)\<rparr>
             in case result of
                  Resolved answer \<Rightarrow>
                    s1\<lparr>pcs := (pcs s1)(a := (pcs s1 a)
                            \<lparr>remoteDescription := Some offer, localDescription := Some answer\<rparr>),
                       emitted := emitted s1 @ [(examId, WebrtcAnswer answer senderSocketId)],
                       streamStates := (streamStates s1)(sessionId \<mapsto>
                         \<lparr>status = Connecting,
                          stream = (case streamStates s1 sessionId of
                                      None \<Rightarrow> None | Some prev \<Rightarrow> stream prev),
                          lastUpdated = (case streamStates s1 sessionId of
                                           None \<Rightarrow> None | Some prev \<Rightarrow> lastUpdated prev),
                          error = None, remoteSocketId = Some senderSocketId\<rparr>)\<rparr>
                | Rejected m \<Rightarrow>
                    stopStream sessionId Error
                      (Some (case m of Some message \<Rightarrow> message
                                     | None \<Rightarrow> MSG_VIDEO_NOT_ESTABLISHED)) s1))"

text \<open>The three observers of a viewer connection; a detached observer does nothing.\<close>

definition onTrack :: "nat \<Rightarrow> MediaStream list \<Rightarrow> nat \<Rightarrow> viewer \<Rightarrow> viewer" where
  "onTrack a streams now s =
     (if pcCount s \<le> a then s
      else case ontrack (pcs s a) of
        None \<Rightarrow> s
      | Some (sessionId, senderSocketId) \<Rightarrow>
          (case streams of
             [] \<Rightarrow> s
           | remoteStream # _ \<Rightarrow>
               if ms_tracks remoteStream = [] then s
               else s\<lparr>streamStates := (streamStates s)(sessionId \<mapsto>
                      \<lparr>status = Live, stream = Some remoteStream, lastUpdated = Some now,
                       error = None, remoteSocketId = Some senderSocketId\<rparr>)\<rparr>))"

definition onIceCandidate :: "nat \<Rightarrow> RTCIceCandidateInit option \<Rightarrow> viewer \<Rightarrow> viewer" where
  "onIceCandidate a candidate s =
     (if pcCount s \<le> a then s
      else case onicecandidate (pcs s a) of
        None \<Rightarrow> s
      | Some (examId, senderSocketId) \<Rightarrow>
          (case candidate of
             None \<Rightarrow> s
           | Some c \<Rightarrow> s\<lparr>emitted := emitted s @ [(examId, ViewerIceCandidate c senderSocketId)]\<rparr>))"

definition onConnectionStateChange ::
  "nat \<Rightarrow> RTCPeerConnectionState \<Rightarrow> nat \<Rightarrow> viewer \<Rightarrow> viewer" where
  "onConnectionStateChange a state now s =
     (if pcCount s \<le> a then s
      else case onconnectionstatechange (pcs s a) of
        None \<Rightarrow> s
      | Some sessionId \<Rightarrow>
          if state = StateFailed then stopStream sessionId Error (Some MSG_VIDEO_NOT_ESTABLISHED) s
          else if state = StateDisconnected then
            stopStream sessionId Error (Some MSG_VIDEO_INTERRUPTED) s
          else if state = StateClosed then stopStream sessionId Idle None s
          else if state = StateConnected then
            (case streamStatesRef s sessionId of
               None \<Rightarrow> s
             | Some currentState \<Rightarrow>
                 if status currentState \<noteq> Live \<and> stream currentState \<noteq> None then
                   s\<lparr>streamStates := (streamStates s)(sessionId \<mapsto>
                        (case streamStates s sessionId of
                           None \<Rightarrow>
                             \<lparr>status = Live, stream = None, lastUpdated = Some now,
                              error = None, remoteSocketId = None\<rparr>
                         | Some prev \<Rightarrow> prev\<lparr>status := Live, lastUpdated := Some now\<rparr>))\<rparr>
                 else s)
          else s)"

text \<open>
  \<^verbatim>\<open>webrtc_ice_candidate_received\<close>.  An empty string is falsy in the source, so an empty
  session id is dropped like a missing one.  \<open>accepted\<close> says whether the browser takes
  the candidate; a rejection is swallowed by the handler.
\<close>

definition onIceCandidateReceived ::
  "RTCIceCandidateInit option \<Rightarrow> SocketId \<Rightarrow> bool \<Rightarrow> viewer \<Rightarrow> viewer" where
  "onIceCandidateReceived candidate senderSocketId accepted s =
     (case remoteSessionMap s senderSocketId of
        None \<Rightarrow> s
      | Some sessionId \<Rightarrow>
          if sessionId = [] then s
          else
            (case peersRef s sessionId of
               None \<Rightarrow> s
             | Some peerInfo \<Rightarrow>
                 if accepted \<and> \<not> isClosed (pcs s (pc peerInfo)) then
                   s\<lparr>pcs := (pcs s)(pc peerInfo :=
                          addIceCandidate candidate (pcs s (pc peerInfo)))\<rparr>
                 else s))"

text \<open>
  The effects of the hook.  \<open>render\<close> is the effect that copies the committed state into
  \<^verbatim>\<open>streamStatesRef\<close>; until it runs, handlers read the previous snapshot.
\<close>

definition render :: "viewer \<Rightarrow> viewer" where
  "render s = s\<lparr>streamStatesRef := streamStates s\<rparr>"

definition idle_state :: StreamState where
  "idle_state =
     \<lparr>status = Idle, stream = None, lastUpdated = None, error = None, remoteSocketId = None\<rparr>"

definition sessionsChanged :: "ProctoringSession list \<Rightarrow> viewer \<Rightarrow> viewer" where
  "sessionsChanged allSessions s =
     (let s1 = s\<lparr>sessionsRef := allSessions\<rparr>
      in if allSessions = [] then s1
         else s1\<lparr>streamStates :=
                 fold (\<lambda>session next.
                         if next (session_id session) = None
                         then next(session_id session \<mapsto> idle_state) else next)
                   allSessions (streamStates s1)\<rparr>)"

text \<open>
  The reconciliation effect (\<^verbatim>\<open>autoRequest\<close>).  \<open>keys\<close> is the order in which
  \<^verbatim>\<open>Object.entries(streamStatesRef.current)\<close> enumerates the snapshot.
\<close>

definition autoRequestEffect :: "SessionId list \<Rightarrow> viewer \<Rightarrow> viewer" where
  "autoRequestEffect keys s =
     (let snapshot = streamStatesRef s;
          activeSessionIds = set (map session_id (filter session_active (sessionsRef s)));
          s1 = fold (\<lambda>session t.
                       if session_active session \<and>
                          (case snapshot (session_id session) of
                             None \<Rightarrow> True | Some st \<Rightarrow> status st = Idle)
                       then requestStream (session_id session) False t else t)
                 (sessionsRef s) s
      in fold (\<lambda>sessionId t.
                 case snapshot sessionId of
                   None \<Rightarrow> t
                 | Some st \<Rightarrow>
                     if sessionId \<notin> activeSessionIds \<and> stream st \<noteq> None
                     then stopStream sessionId Idle None t else t)
           keys s1)"

text \<open>
  The events of the hook.  \<open>RequestStream\<close> and \<open>StopStream\<close> are the two calls of the
  proctoring page, \<^verbatim>\<open>requestStream(sessionId, options)\<close> and
  \<^verbatim>\<open>stopStream(sessionId, 'idle')\<close>.  A socket event reaches its handler only when the
  socket of that exam exists.
\<close>

datatype viewer_event =
    Render
  | SessionsChanged "ProctoringSession list"
  | AutoRequest "SessionId list"
  | RequestStream SessionId bool
  | StopStream SessionId
  | ReconnectFailed ExamId
  | Disconnect ExamId
  | UserLeft ExamId UserId
  | OfferReceived ExamId RTCSessionDescriptionInit SocketId UserId
  | OfferSettled nat "RTCSessionDescriptionInit outcome"
  | IceCandidateReceived ExamId "RTCIceCandidateInit option" SocketId bool
  | Track nat "MediaStream list" nat
  | IceCandidate nat "RTCIceCandidateInit option"
  | ConnectionStateChange nat RTCPeerConnectionState nat

fun viewer_step :: "viewer_event \<Rightarrow> viewer \<Rightarrow> viewer" where
  "viewer_step Render s = render s"
| "viewer_step (SessionsChanged allSessions) s = sessionsChanged allSessions s"
| "viewer_step (AutoRequest keys) s = autoRequestEffect keys s"
| "viewer_step (RequestStream sessionId force) s = requestStream sessionId force s"
| "viewer_step (StopStream sessionId) s = stopStream sessionId Idle None s"
| "viewer_step (ReconnectFailed examId) s =
     (if examId \<in> socketsRef s then onReconnectFailed examId s else s)"
| "viewer_step (Disconnect examId) s =
     (if examId \<in> socketsRef s then onDisconnect examId s else s)"
| "viewer_step (UserLeft examId userId) s =
     (if examId \<in> socketsRef s then onUserLeft examId userId s else s)"
| "viewer_step (OfferReceived examId offer senderSocketId studentId) s =
     (if examId \<in> socketsRef s then onOfferReceived examId offer senderSocketId studentId s
      else s)"
| "viewer_step (OfferSettled a result) s = onOfferSettled a result s"
| "viewer_step (IceCandidateReceived examId candidate senderSocketId accepted) s =
     (if examId \<in> socketsRef s then onIceCandidateReceived candidate senderSocketId accepted s
      else s)"
| "viewer_step (Track a streams now) s = onTrack a streams now s"
| "viewer_step (IceCandidate a candidate) s = onIceCandidate a candidate s"
| "viewer_step (ConnectionStateChange a state now) s = onConnectionStateChange a state now s"

text \<open>
  An entry of the stream-state store is clean when, being \<open>Idle\<close> or \<open>Error\<close>, it holds
  neither a stream handle nor a remote socket id.
\<close>

definition clean_entry :: "StreamState \<Rightarrow> bool" where
  "clean_entry e \<longleftrightarrow>
     (status e = Idle \<or> status e = Error \<longrightarrow> stream e = None \<and> remoteSocketId e = None)"

definition clean_map :: "(SessionId \<rightharpoonup> StreamState) \<Rightarrow> bool" where
  "clean_map m \<longleftrightarrow> (\<forall>sid e. m sid = Some e \<longrightarrow> clean_entry e)"

definition clean_store :: "viewer \<Rightarrow> bool" where
  "clean_store s \<longleftrightarrow> clean_map (streamStates s) \<and> clean_map (streamStatesRef s)"

text \<open>
  Connection \<open>a\<close> is the registered link of some session: the peer registry holds it under
  the session whose id its observers captured.
\<close>

definition registered_link :: "viewer \<Rightarrow> nat \<Rightarrow> bool" where
  "registered_link s a \<longleftrightarrow>
     (\<exists>sessionId peerInfo senderSocketId.
        peersRef s sessionId = Some peerInfo \<and> pc peerInfo = a
      \<and> onconnectionstatechange (pcs s a) = Some sessionId
      \<and> ontrack (pcs s a) = Some (sessionId, senderSocketId))"

definition links_registered :: "viewer \<Rightarrow> bool" where
  "links_registered s \<longleftrightarrow>
     (\<forall>a. a < pcCount s \<longrightarrow> torn_down (pcs s a) \<or> registered_link s a)"

text \<open>The entry of a session, if there is one, has a status other than \<open>Live\<close>.\<close>

definition entry_not_live :: "StreamState option \<Rightarrow> bool" where
  "entry_not_live e \<longleftrightarrow> (case e of None \<Rightarrow> True | Some st \<Rightarrow> status st \<noteq> Live)"

definition not_live :: "SessionId \<Rightarrow> viewer \<Rightarrow> bool" where
  "not_live sid s \<longleftrightarrow> entry_not_live (streamStates s sid)"

text \<open>
  Event \<open>ev\<close>, handled in state \<open>s\<close>, delivers a stream to session \<open>sid\<close>: it is a track
  event on a connection whose track observer is attached for \<open>sid\<close>, and its first stream
  has at least one track.  \<open>delivered sid evs s\<close>: some event of \<open>evs\<close>, handled in turn
  from \<open>s\<close>, does so.  A session is quiet when neither the state nor the snapshot holds a
  \<open>Live\<close> status or a stream handle for it.
\<close>

definition delivers :: "SessionId \<Rightarrow> viewer_event \<Rightarrow> viewer \<Rightarrow> bool" where
  "delivers sid ev s \<longleftrightarrow>
     (case ev of
        Track a streams now \<Rightarrow>
          a < pcCount s
          \<and> (case ontrack (pcs s a) of
                None \<Rightarrow> False
              | Some (sessionId, senderSocketId) \<Rightarrow> sessionId = sid)
          \<and> (case streams of [] \<Rightarrow> False | remoteStream # _ \<Rightarrow> ms_tracks remoteStream \<noteq> [])
      | _ \<Rightarrow> False)"

fun delivered :: "SessionId \<Rightarrow> viewer_event list \<Rightarrow> viewer \<Rightarrow> bool" where
  "delivered sid [] s = False"
| "delivered sid (ev # evs) s = (delivers sid ev s \<or> delivered sid evs (viewer_step ev s))"

definition entry_quiet :: "StreamState option \<Rightarrow> bool" where
  "entry_quiet e \<longleftrightarrow>
     (case e of None \<Rightarrow> True | Some st \<Rightarrow> status st \<noteq> Live \<and> stream st = None)"

definition quiet :: "SessionId \<Rightarrow> viewer \<Rightarrow> bool" where
  "quiet sid s \<longleftrightarrow> entry_quiet (streamStates s sid) \<and> entry_quiet (streamStatesRef s sid)"

text \<open>
  How the store of connections and the two registries change from a state to a later one,
  for a set \<open>R\<close> of remote socket ids from which no offer is handled in between:
  connections are only added; a constructed connection that is torn down stays torn down;
  a registry entry of the later state was there before or names a connection constructed
  since; and an id of \<open>R\<close> without a mapping entry gets none.
\<close>

definition evolves :: "SocketId set \<Rightarrow> viewer \<Rightarrow> viewer \<Rightarrow> bool" where
  "evolves R s s' \<longleftrightarrow>
     pcCount s \<le> pcCount s'
     \<and> (\<forall>a. a < pcCount s \<and> torn_down (pcs s a) \<longrightarrow> torn_down (pcs s' a))
     \<and> (\<forall>sid info. peersRef s' sid = Some info \<longrightarrow>
           peersRef s sid = Some info \<or> (pcCount s \<le> pc info \<and> pc info < pcCount s'))
     \<and> (\<forall>r \<in> R. remoteSessionMap s r = None \<longrightarrow> remoteSessionMap s' r = None)"



text \<open>A run of the hook: the events in the order they are handled, from the mounted state.\<close>

definition viewer_run :: "viewer_event list \<Rightarrow> viewer" where
  "viewer_run evs = fold viewer_step evs viewer_init"

section \<open>Publisher: the WebRTC part of useAICameraMonitor\<close>

datatype publisher_emit =
    WebrtcOffer RTCSessionDescriptionInit SocketId
  | PublisherIceCandidate RTCIceCandidateInit SocketId

datatype console_entry = ConsoleWarn string | ConsoleError string

type_synonym publisher_pc = "(unit, SocketId, SocketId) RTCPeerConnection"

text \<open>
  \<open>socketConnected\<close> is \<^verbatim>\<open>socketRef.current\<close>: \<open>None\<close> for \<^verbatim>\<open>null\<close>, otherwise the
  socket's \<^verbatim>\<open>connected\<close> flag.  \<open>peerConnections\<close> is the \<^verbatim>\<open>Map\<close> from proctor socket
  id to connection, in insertion order.  \<open>currentStream\<close> is \<^verbatim>\<open>cameraManager.currentStream\<close>,
  which these handlers read and never write (the camera manager is outside the given
  sources).  \<open>pendingCamera\<close> holds the calls suspended in \<^verbatim>\<open>await cameraManager.start()\<close>,
  \<open>pendingCreateOffer\<close> those suspended in \<^verbatim>\<open>createOffer\<close>/\<^verbatim>\<open>setLocalDescription\<close>, and
  \<open>pendingAnswers\<close> the calls of \<^verbatim>\<open>handleAnswerReceived\<close> suspended in
  \<^verbatim>\<open>setRemoteDescription\<close>, each with the connection, the sender and the answer it
  captured, in call order.
\<close>

record publisher =
  socketConnected :: "bool option"
  peerConnections :: "(SocketId \<times> nat) list"
  currentStream :: "MediaStream option"
  pub_pcs :: "nat \<Rightarrow> publisher_pc"
  pub_pcCount :: nat
  pendingCamera :: "SocketId list"
  pendingCreateOffer :: "nat \<rightharpoonup> SocketId"
  pendingAnswers :: "(nat \<times> SocketId \<times> RTCSessionDescriptionInit) list"
  pub_emitted :: "publisher_emit list"
  console :: "console_entry list"
  pub_pcLog :: "(nat \<times> pc_call) list"

definition MSG_SOCKET_NOT_READY :: string where
  "MSG_SOCKET_NOT_READY = ''Socket chua san sang de gui stream''"

definition MSG_CAMERA_INIT_FAILED :: string where
  "MSG_CAMERA_INIT_FAILED = ''Khong the khoi tao camera de stream cho giam thi''"

definition MSG_NO_CAMERA_STREAM :: string where
  "MSG_NO_CAMERA_STREAM = ''Khong co camera stream de gui cho giam thi''"

definition MSG_OFFER_FAILED :: string where
  "MSG_OFFER_FAILED = ''Loi khi tao WebRTC offer cho giam thi''"

definition MSG_REMOTE_DESCRIPTION_FAILED :: string where
  "MSG_REMOTE_DESCRIPTION_FAILED = ''Khong the thiet lap remote description''"

definition MSG_ADD_CANDIDATE_FAILED :: string where
  "MSG_ADD_CANDIDATE_FAILED = ''Khong the them ICE candidate''"

definition pub_teardown_calls :: "nat \<Rightarrow> (nat \<times> pc_call) list" where
  "pub_teardown_calls a =
     [(a, AssignOnicecandidate False), (a, AssignOntrack False),
      (a, AssignOnconnectionstatechange False), (a, CallClose)]"

definition teardownPeerConnection :: "SocketId \<Rightarrow> publisher \<Rightarrow> publisher" where
  "teardownPeerConnection proctorSocketId s =
     (case map_of (peerConnections s) proctorSocketId of
        None \<Rightarrow> s
      | Some peer \<Rightarrow>
          s\<lparr>pub_pcs := (pub_pcs s)(peer := detach_and_close (pub_pcs s peer)),
            pub_pcLog := pub_pcLog s @ pub_teardown_calls peer,
            peerConnections := AList.delete proctorSocketId (peerConnections s)\<rparr>)"

definition teardownAllPeers :: "publisher \<Rightarrow> publisher" where
  "teardownAllPeers s =
     (fold teardownPeerConnection (map fst (peerConnections s)) s)\<lparr>peerConnections := []\<rparr>"

text \<open>
  \<^verbatim>\<open>respondToProctorOfferRequest\<close> from \<^verbatim>\<open>new RTCPeerConnection\<close> to the
  \<^verbatim>\<open>await createOffer\<close>: the connection is allocated, stored in the map under the
  proctor's socket id, given the camera tracks and its two observers.
\<close>

definition createPeerConnection :: "SocketId \<Rightarrow> MediaStream \<Rightarrow> publisher \<Rightarrow> publisher" where
  "createPeerConnection proctorSocketId cameraStream s =
     (let peerConnection = pub_pcCount s
      in s\<lparr>pub_pcs := (pub_pcs s)(peerConnection :=
              new_RTCPeerConnection
                 \<lparr>onicecandidate := Some proctorSocketId,
                  onconnectionstatechange := Some proctorSocketId,
                  localTracks := ms_tracks cameraStream\<rparr>),
            pub_pcCount := Suc peerConnection,
            peerConnections := AList.update proctorSocketId peerConnection (peerConnections s),
            pub_pcLog := pub_pcLog s @
              [(peerConnection, AssignOnicecandidate True),
               (peerConnection, AssignOnconnectionstatechange True)],
            pendingCreateOffer := (pendingCreateOffer s)(peerConnection \<mapsto> proctorSocketId)\<rparr>)"

text \<open>
  \<^verbatim>\<open>respondToProctorOfferRequest\<close> up to its first \<^verbatim>\<open>await\<close>.  With a camera stream at
  hand there is no suspension before the connection is created; without one the call is
  suspended in \<^verbatim>\<open>cameraManager.start()\<close>.
\<close>

definition respondToProctorOfferRequest :: "SocketId \<Rightarrow> publisher \<Rightarrow> publisher" where
  "respondToProctorOfferRequest proctorSocketId s =
     (if socketConnected s \<noteq> Some True then
        s\<lparr>console := console s @ [ConsoleWarn MSG_SOCKET_NOT_READY]\<rparr>
      else
        (let s1 = (case map_of (peerConnections s) proctorSocketId of
                     None \<Rightarrow> s
                   | Some existingPeer \<Rightarrow> teardownPeerConnection proctorSocketId s)
         in case currentStream s1 of
              None \<Rightarrow> s1\<lparr>pendingCamera := pendingCamera s1 @ [proctorSocketId]\<rparr>
            | Some cameraStream \<Rightarrow> createPeerConnection proctorSocketId cameraStream s1))"

text \<open>
  The continuation of \<^verbatim>\<open>await cameraManager.start()\<close> for a suspended call of
  \<^verbatim>\<open>respondToProctorOfferRequest\<close>: \<open>Rejected\<close> when the camera cannot be acquired,
  \<open>Resolved None\<close> when the manager resolves without a stream.
\<close>

definition onCameraSettled ::
  "SocketId \<Rightarrow> MediaStream option outcome \<Rightarrow> publisher \<Rightarrow> publisher" where
  "onCameraSettled proctorSocketId result s =
     (if proctorSocketId \<notin> set (pendingCamera s) then s
      else
        (let s1 = s\<lparr>pendingCamera := remove1 proctorSocketId (pendingCamera s)\<rparr>
         in case result of
              Rejected m \<Rightarrow> s1\<lparr>console := console s1 @ [ConsoleError MSG_CAMERA_INIT_FAILED]\<rparr>
            | Resolved None \<Rightarrow> s1\<lparr>console := console s1 @ [ConsoleWarn MSG_NO_CAMERA_STREAM]\<rparr>
            | Resolved (Some cameraStream) \<Rightarrow>
                createPeerConnection proctorSocketId cameraStream s1))"

text \<open>
  The continuation of \<^verbatim>\<open>createOffer\<close> and \<^verbatim>\<open>setLocalDescription\<close>.  As on the viewer, a
  closed connection never settles its pending operations.
\<close>

definition onCreateOfferSettled ::
  "nat \<Rightarrow> RTCSessionDescriptionInit outcome \<Rightarrow> publisher \<Rightarrow> publisher" where
  "onCreateOfferSettled a result s =
     (case pendingCreateOffer s a of
        None \<Rightarrow> s
      | Some proctorSocketId \<Rightarrow>
          if pub_pcCount s \<le> a \<or> isClosed (pub_pcs s a) then s
          else
            (let s1 = s\<lparr>pendingCreateOffer := (pendingCreateOffer s)(a := None)\<rparr>
             in case result of
                  Resolved offer \<Rightarrow>
                    s1\<lparr>pub_pcs := (pub_pcs s1)(a := (pub_pcs s1 a)
                            \<lparr>localDescription := Some offer\<rparr>),
                       pub_emitted := pub_emitted s1 @ [WebrtcOffer offer proctorSocketId]\<rparr>
                | Rejected m \<Rightarrow>
                    teardownPeerConnection proctorSocketId
                      (s1\<lparr>console := console s1 @ [ConsoleError MSG_OFFER_FAILED]\<rparr>)))"

text \<open>
  \<^verbatim>\<open>handleOfferRequest\<close>; \<open>normalizedStudentId\<close> is the hook's own participant.  Empty
  strings are falsy.
\<close>

definition handleOfferRequest ::
  "UserId \<Rightarrow> SocketId option \<Rightarrow> UserId option \<Rightarrow> publisher \<Rightarrow> publisher" where
  "handleOfferRequest normalizedStudentId proctorSocketId studentIdToView s =
     (case proctorSocketId of
        None \<Rightarrow> s
      | Some p \<Rightarrow>
          if p = [] then s
          else if (case studentIdToView of
                     None \<Rightarrow> False
                   | Some v \<Rightarrow> v \<noteq> [] \<and> v \<noteq> normalizedStudentId) then s
          else respondToProctorOfferRequest p s)"

text \<open>
  \<^verbatim>\<open>handleAnswerReceived\<close> up to its \<^verbatim>\<open>await\<close>: the connection of the sender is looked
  up, and when it has no remote description, or one of another type than the answer,
  \<^verbatim>\<open>setRemoteDescription\<close> is called and the handler is suspended.  The remote
  description of the connection changes only when that call settles.
\<close>

definition needs_remote_description ::
  "('t, 'i, 'c) RTCPeerConnection \<Rightarrow> RTCSessionDescriptionInit \<Rightarrow> bool" where
  "needs_remote_description peer answer =
     (case remoteDescription peer of
        None \<Rightarrow> True
      | Some d \<Rightarrow> sdp_type d \<noteq> sdp_type answer)"

definition handleAnswerReceived ::
  "RTCSessionDescriptionInit option \<Rightarrow> SocketId \<Rightarrow> publisher \<Rightarrow> publisher" where
  "handleAnswerReceived answer senderSocketId s =
     (case map_of (peerConnections s) senderSocketId of
        None \<Rightarrow> s
      | Some peer \<Rightarrow>
          (case answer of
             None \<Rightarrow> s
           | Some ans \<Rightarrow>
               if needs_remote_description (pub_pcs s peer) ans then
                 s\<lparr>pendingAnswers := pendingAnswers s @ [(peer, senderSocketId, ans)]\<rparr>
               else s))"

text \<open>
  The continuation of \<^verbatim>\<open>handleAnswerReceived\<close> for the suspended call at position \<open>i\<close>.
  \<open>Resolved\<close>: the answer is now the remote description of the connection the call
  captured.  \<open>Rejected\<close>: the \<^verbatim>\<open>catch\<close> block logs the error and tears down the
  connection that the map holds for the sender at that moment.
\<close>

definition onAnswerSettled :: "nat \<Rightarrow> unit outcome \<Rightarrow> publisher \<Rightarrow> publisher" where
  "onAnswerSettled i result s =
     (if length (pendingAnswers s) \<le> i then s
      else
        (case pendingAnswers s ! i of
           (peer, senderSocketId, ans) \<Rightarrow>
             (let s1 = s\<lparr>pendingAnswers :=
                          take i (pendingAnswers s) @ drop (Suc i) (pendingAnswers s)\<rparr>
              in case result of
                   Resolved u \<Rightarrow>
                     s1\<lparr>pub_pcs := (pub_pcs s1)(peer := (pub_pcs s1 peer)
                            \<lparr>remoteDescription := Some ans\<rparr>)\<rparr>
                 | Rejected m \<Rightarrow>
                     teardownPeerConnection senderSocketId
                       (s1\<lparr>console := console s1 @
                             [ConsoleError MSG_REMOTE_DESCRIPTION_FAILED]\<rparr>))))"

definition handleIceCandidateReceived ::
  "RTCIceCandidateInit option \<Rightarrow> SocketId \<Rightarrow> bool \<Rightarrow> publisher \<Rightarrow> publisher" where
  "handleIceCandidateReceived candidate senderSocketId accepted s =
     (case map_of (peerConnections s) senderSocketId of
        None \<Rightarrow> s
      | Some peer \<Rightarrow>
          (case candidate of
             None \<Rightarrow> s
           | Some c \<Rightarrow>
               if accepted \<and> \<not> isClosed (pub_pcs s peer) then
                 s\<lparr>pub_pcs := (pub_pcs s)(peer := addIceCandidate (Some c) (pub_pcs s peer))\<rparr>
               else s\<lparr>console := console s @ [ConsoleError MSG_ADD_CANDIDATE_FAILED]\<rparr>))"

definition pub_onIceCandidate :: "nat \<Rightarrow> RTCIceCandidateInit option \<Rightarrow> publisher \<Rightarrow> publisher" where
  "pub_onIceCandidate a candidate s =
     (if pub_pcCount s \<le> a then s
      else case onicecandidate (pub_pcs s a) of
        None \<Rightarrow> s
      | Some proctorSocketId \<Rightarrow>
          (case candidate of
             None \<Rightarrow> s
           | Some c \<Rightarrow> s\<lparr>pub_emitted := pub_emitted s @ [PublisherIceCandidate c proctorSocketId]\<rparr>))"

definition pub_onConnectionStateChange ::
  "nat \<Rightarrow> RTCPeerConnectionState \<Rightarrow> publisher \<Rightarrow> publisher" where
  "pub_onConnectionStateChange a state s =
     (if pub_pcCount s \<le> a then s
      else case onconnectionstatechange (pub_pcs s a) of
        None \<Rightarrow> s
      | Some proctorSocketId \<Rightarrow>
          if state = StateFailed \<or> state = StateDisconnected \<or> state = StateClosed
          then teardownPeerConnection proctorSocketId s else s)"

definition handleSocketDisconnect :: "publisher \<Rightarrow> publisher" where
  "handleSocketDisconnect s = teardownAllPeers s"

text \<open>
  The events of the publisher hook: the socket events, the settlements of its suspended
  calls, the events of its connections, and the changes that the camera manager and the
  socket make to \<open>currentStream\<close> and to the \<^verbatim>\<open>connected\<close> flag.
\<close>

datatype publisher_event =
    OfferRequest "SocketId option" "UserId option"
  | CameraSettled SocketId "MediaStream option outcome"
  | CreateOfferSettled nat "RTCSessionDescriptionInit outcome"
  | AnswerReceived "RTCSessionDescriptionInit option" SocketId
  | AnswerSettled nat "unit outcome"
  | PubIceCandidateReceived "RTCIceCandidateInit option" SocketId bool
  | PubIceCandidate nat "RTCIceCandidateInit option"
  | PubConnectionStateChange nat RTCPeerConnectionState
  | SocketDisconnect
  | CameraChanged "MediaStream option"
  | SocketChanged "bool option"

fun publisher_step :: "UserId \<Rightarrow> publisher_event \<Rightarrow> publisher \<Rightarrow> publisher" where
  "publisher_step n (OfferRequest proctorSocketId studentIdToView) s =
     handleOfferRequest n proctorSocketId studentIdToView s"
| "publisher_step n (CameraSettled proctorSocketId result) s =
     onCameraSettled proctorSocketId result s"
| "publisher_step n (CreateOfferSettled a result) s = onCreateOfferSettled a result s"
| "publisher_step n (AnswerReceived answer senderSocketId) s =
     handleAnswerReceived answer senderSocketId s"
| "publisher_step n (AnswerSettled i result) s = onAnswerSettled i result s"
| "publisher_step n (PubIceCandidateReceived candidate senderSocketId accepted) s =
     handleIceCandidateReceived candidate senderSocketId accepted s"
| "publisher_step n (PubIceCandidate a candidate) s = pub_onIceCandidate a candidate s"
| "publisher_step n (PubConnectionStateChange a state) s = pub_onConnectionStateChange a state s"
| "publisher_step n SocketDisconnect s = handleSocketDisconnect s"
| "publisher_step n (CameraChanged cameraStream) s = s\<lparr>currentStream := cameraStream\<rparr>"
| "publisher_step n (SocketChanged flag) s = s\<lparr>socketConnected := flag\<rparr>"


text \<open>The same for the publisher, whose map of connections is keyed by the proctor socket.\<close>

definition pub_evolves :: "SocketId set \<Rightarrow> publisher \<Rightarrow> publisher \<Rightarrow> bool" where
  "pub_evolves R s s' \<longleftrightarrow>
     pub_pcCount s \<le> pub_pcCount s'
     \<and> (\<forall>a. a < pub_pcCount s \<and> torn_down (pub_pcs s a) \<longrightarrow> torn_down (pub_pcs s' a))
     \<and> (\<forall>k a. map_of (peerConnections s') k = Some a \<longrightarrow>
           map_of (peerConnections s) k = Some a \<or> (pub_pcCount s \<le> a \<and> a < pub_pcCount s'))
     \<and> (\<forall>r \<in> R. map_of (peerConnections s) r = None \<longrightarrow> map_of (peerConnections s') r = None)"



text \<open>
  The publisher hook before its socket exists, and its runs; \<open>n\<close> is the hook's own
  participant id.
\<close>

definition publisher_init :: publisher where
  "publisher_init =
     \<lparr>socketConnected = None, peerConnections = [], currentStream = None,
      pub_pcs = (\<lambda>a. new_RTCPeerConnection), pub_pcCount = 0, pendingCamera = [],
      pendingCreateOffer = Map.empty, pendingAnswers = [], pub_emitted = [], console = [],
      pub_pcLog = []\<rparr>"

definition publisher_run :: "UserId \<Rightarrow> publisher_event list \<Rightarrow> publisher" where
  "publisher_run n evs = fold (publisher_step n) evs publisher_init"


section \<open>Example runs\<close>

text \<open>
  One session \<open>s1\<close> of participant \<open>u1\<close> in exam \<open>exam1\<close>, followed through a request, a
  negotiation with the publisher socket \<open>R1\<close>, a live stream, and a forced re-request
  answered from the publisher's new socket \<open>R2\<close>.
\<close>

definition ex_session :: ProctoringSession where
  "ex_session =
     \<lparr>session_id = ''s1'', session_examId = ''exam1'', session_userId = ''u1'',
      session_active = True\<rparr>"

definition ex_offer :: RTCSessionDescriptionInit where
  "ex_offer = \<lparr>sdp_type = SdpOffer, sdp = ''offer''\<rparr>"

definition ex_answer :: RTCSessionDescriptionInit where
  "ex_answer = \<lparr>sdp_type = SdpAnswer, sdp = ''answer''\<rparr>"

definition ex_stream :: MediaStream where
  "ex_stream = \<lparr>ms_id = 1, ms_tracks = [10, 11]\<rparr>"

definition ex_known :: "viewer_event list" where
  "ex_known = [SessionsChanged [ex_session], Render]"

definition ex_requested :: "viewer_event list" where
  "ex_requested = ex_known @ [RequestStream ''s1'' False, Render]"

definition ex_negotiating :: "viewer_event list" where
  "ex_negotiating = ex_requested @ [OfferReceived ''exam1'' ex_offer ''R1'' ''u1'']"

definition ex_connecting :: "viewer_event list" where
  "ex_connecting = ex_negotiating @ [OfferSettled 0 (Resolved ex_answer), Render]"

definition ex_live :: "viewer_event list" where
  "ex_live = ex_connecting @ [Track 0 [ex_stream] 5, Render]"

text \<open>
  The usual order of a negotiation: the track event fires while the remote description is
  being set, before the offer handler resumes.
\<close>

definition ex_track_first :: "viewer_event list" where
  "ex_track_first =
     ex_negotiating @ [Track 0 [ex_stream] 5, Render, OfferSettled 0 (Resolved ex_answer), Render]"

definition ex_renegotiated :: "viewer_event list" where
  "ex_renegotiated =
     ex_live @ [RequestStream ''s1'' True, Render, OfferReceived ''exam1'' ex_offer ''R2'' ''u1'',
                OfferSettled 1 (Resolved ex_answer), Render]"

text \<open>
  A run in which the relay names the publisher by the empty socket id, and the publisher
  then offers again from the socket \<open>R2\<close>.
\<close>

definition ex_empty_remote :: "viewer_event list" where
  "ex_empty_remote = ex_requested @ [OfferReceived ''exam1'' ex_offer [] ''u1'']"

definition ex_stale_mapping :: "viewer_event list" where
  "ex_stale_mapping = ex_empty_remote @ [OfferReceived ''exam1'' ex_offer ''R2'' ''u1'']"

text \<open>The page requests the stream of the idle session twice before the next render.\<close>

definition ex_double_request :: "viewer_event list" where
  "ex_double_request = ex_known @ [RequestStream ''s1'' False, RequestStream ''s1'' False]"

definition ex_disconnected :: "viewer_event list" where
  "ex_disconnected = ex_live @ [Disconnect ''exam1'']"

text \<open>A publisher whose socket is connected and whose camera has not been started.\<close>

definition pub_connected :: publisher where
  "pub_connected =
     \<lparr>socketConnected = Some True, peerConnections = [], currentStream = None,
      pub_pcs = (\<lambda>a. new_RTCPeerConnection), pub_pcCount = 0, pendingCamera = [],
      pendingCreateOffer = Map.empty, pendingAnswers = [], pub_emitted = [], console = [],
      pub_pcLog = []\<rparr>"

text \<open>
  Two offer requests of the proctor socket \<open>R\<close> reach the publisher while its camera is
  still being started; the camera then starts, and both suspended calls resume.
\<close>

definition pub_race :: publisher where
  "pub_race =
     onCameraSettled ''R'' (Resolved (Some ex_stream))
       (onCameraSettled ''R'' (Resolved (Some ex_stream))
          (handleOfferRequest ''u1'' (Some ''R'') None
             (handleOfferRequest ''u1'' (Some ''R'') None pub_connected)))"

text \<open>
  The session \<open>s1\<close> is live; the page then passes a session list that no longer contains
  it, only the session \<open>s2\<close> of another participant of the same exam.
\<close>

definition ex_session2 :: ProctoringSession where
  "ex_session2 =
     \<lparr>session_id = ''s2'', session_examId = ''exam1'', session_userId = ''u2'',
      session_active = True\<rparr>"

definition ex_dropped :: "viewer_event list" where
  "ex_dropped = ex_live @ [SessionsChanged [ex_session2], Render]"



text \<open>
  A publisher run: the socket connects, the camera runs, the proctor socket \<open>R\<close> asks
  for the stream, and the offer is created and sent.
\<close>

definition pub_offering :: "publisher_event list" where
  "pub_offering =
     [SocketChanged (Some True), CameraChanged (Some ex_stream),
      OfferRequest (Some ''R'') None, CreateOfferSettled 0 (Resolved ex_offer)]"



text \<open>
  The answer of \<open>R\<close> is delivered once; delivered a second time after the first delivery
  has been applied; and delivered a second time while the first call of
  \<^verbatim>\<open>setRemoteDescription\<close> is still pending.  In the last run the first call succeeds, and
  the second is refused by the connection, which is no longer waiting for an answer.
\<close>

definition pub_answer_once :: "publisher_event list" where
  "pub_answer_once =
     pub_offering @ [AnswerReceived (Some ex_answer) ''R'', AnswerSettled 0 (Resolved ())]"

definition pub_answer_sequential :: "publisher_event list" where
  "pub_answer_sequential =
     pub_answer_once @ [AnswerReceived (Some ex_answer) ''R'']"

definition pub_answer_overlap :: "publisher_event list" where
  "pub_answer_overlap =
     pub_offering @
       [AnswerReceived (Some ex_answer) ''R'', AnswerReceived (Some ex_answer) ''R'',
        AnswerSettled 0 (Resolved ()), AnswerSettled 0 (Rejected (Some ''InvalidStateError''))]"


section \<open>Basic facts about teardown\<close>

lemma teardownPeer_streamStates [simp]: "streamStates (teardownPeer sid s) = streamStates s"
  by (simp add: teardownPeer_def Let_def split: option.splits)

lemma teardownPeer_streamStatesRef [simp]:
  "streamStatesRef (teardownPeer sid s) = streamStatesRef s"
  by (simp add: teardownPeer_def Let_def split: option.splits)

lemma teardownPeer_sessionsRef [simp]: "sessionsRef (teardownPeer sid s) = sessionsRef s"
  by (simp add: teardownPeer_def Let_def split: option.splits)

lemma teardownPeer_socketsRef [simp]: "socketsRef (teardownPeer sid s) = socketsRef s"
  by (simp add: teardownPeer_def Let_def split: option.splits)

lemma teardownPeer_emitted [simp]: "emitted (teardownPeer sid s) = emitted s"
  by (simp add: teardownPeer_def Let_def split: option.splits)

lemma teardownPeer_pcCount [simp]: "pcCount (teardownPeer sid s) = pcCount s"
  by (simp add: teardownPeer_def Let_def split: option.splits)

lemma teardownPeer_pendingOffers [simp]: "pendingOffers (teardownPeer sid s) = pendingOffers s"
  by (simp add: teardownPeer_def Let_def split: option.splits)

lemma teardownPeer_peersRef [simp]: "peersRef (teardownPeer sid s) = (peersRef s)(sid := None)"
  by (auto simp add: teardownPeer_def Let_def split: option.splits)

lemma teardownPeer_pcs:
  "pcs (teardownPeer sid s) =
     (case peersRef s sid of
        None \<Rightarrow> pcs s
      | Some i \<Rightarrow> (pcs s)(pc i := detach_and_close (pcs s (pc i))))"
  by (simp add: teardownPeer_def Let_def split: option.splits)



lemma stopStream_streamStates:
  "streamStates (stopStream sid st m s) =
     (streamStates s)(sid \<mapsto>
        \<lparr>status = st, stream = None,
         lastUpdated = (case streamStates s sid of None \<Rightarrow> None | Some prev \<Rightarrow> lastUpdated prev),
         error = m, remoteSocketId = None\<rparr>)"
  by (simp add: stopStream_def Let_def)

lemma stopStream_streamStatesRef [simp]:
  "streamStatesRef (stopStream sid st m s) = streamStatesRef s"
  by (simp add: stopStream_def Let_def)

lemma stopStream_sessionsRef [simp]: "sessionsRef (stopStream sid st m s) = sessionsRef s"
  by (simp add: stopStream_def Let_def)

lemma stopStream_peersRef [simp]: "peersRef (stopStream sid st m s) = (peersRef s)(sid := None)"
  by (simp add: stopStream_def Let_def)

lemma stopStream_pcs: "pcs (stopStream sid st m s) = pcs (teardownPeer sid s)"
  by (simp add: stopStream_def Let_def)

lemma torn_down_detach_and_close [simp]: "torn_down (detach_and_close p)"
  by (simp add: torn_down_def detach_and_close_def)

lemma teardownPeer_keeps_torn_down:
  "torn_down (pcs s a) \<Longrightarrow> torn_down (pcs (teardownPeer sid s) a)"
  by (simp add: teardownPeer_pcs split: option.splits)

lemma stopStream_keeps_torn_down:
  "torn_down (pcs s a) \<Longrightarrow> torn_down (pcs (stopStream sid st m s) a)"
  by (simp add: stopStream_pcs teardownPeer_keeps_torn_down)

lemma stopStream_tears_down:
  "peersRef s sid = Some info \<Longrightarrow> torn_down (pcs (stopStream sid st m s) (pc info))"
  by (simp add: stopStream_pcs teardownPeer_pcs)

text \<open>The loops that stop a list of sessions, as in the socket handlers.\<close>

lemma stop_all_keeps_torn_down:
  "torn_down (pcs s a) \<Longrightarrow>
   torn_down (pcs (fold (\<lambda>x. stopStream (session_id x) st m) xs s) a)"
  by (induction xs arbitrary: s) (simp_all add: stopStream_keeps_torn_down)

lemma stop_all_peersRef:
  "peersRef (fold (\<lambda>x. stopStream (session_id x) st m) xs s) sid =
     (if sid \<in> session_id ` set xs then None else peersRef s sid)"
  by (induction xs arbitrary: s) auto

lemma stop_all_other_streamStates:
  "sid \<notin> session_id ` set xs \<Longrightarrow>
   streamStates (fold (\<lambda>x. stopStream (session_id x) st m) xs s) sid = streamStates s sid"
  by (induction xs arbitrary: s) (auto simp: stopStream_streamStates)

lemma stop_all_streamStates:
  "sid \<in> session_id ` set xs \<Longrightarrow>
   \<exists>e. streamStates (fold (\<lambda>x. stopStream (session_id x) st m) xs s) sid = Some e
      \<and> status e = st \<and> stream e = None \<and> error e = m \<and> remoteSocketId e = None"
proof (induction xs arbitrary: s)
  case Nil
  then show ?case by simp
next
  case (Cons x xs)
  show ?case
  proof (cases "sid \<in> session_id ` set xs")
    case True
    from Cons.IH [OF True] show ?thesis by simp
  next
    case False
    with Cons.prems have "session_id x = sid" by auto
    with False show ?thesis
      by (simp add: stop_all_other_streamStates stopStream_streamStates)
  qed
qed

lemma stop_all_tears_down:
  "sid \<in> session_id ` set xs \<Longrightarrow> peersRef s sid = Some info \<Longrightarrow>
   torn_down (pcs (fold (\<lambda>x. stopStream (session_id x) st m) xs s) (pc info))"
proof (induction xs arbitrary: s)
  case Nil
  then show ?case by simp
next
  case (Cons x xs)
  show ?case
  proof (cases "session_id x = sid")
    case True
    with Cons.prems have "torn_down (pcs (stopStream (session_id x) st m s) (pc info))"
      by (simp add: stopStream_tears_down)
    then show ?thesis by (simp add: stop_all_keeps_torn_down)
  next
    case False
    with Cons.prems have "sid \<in> session_id ` set xs"
      and "peersRef (stopStream (session_id x) st m s) sid = Some info"
      by auto
    from Cons.IH [OF this] show ?thesis by simp
  qed
qed

lemma teardownPeerConnection_pub_pcCount [simp]:
  "pub_pcCount (teardownPeerConnection p s) = pub_pcCount s"
  by (simp add: teardownPeerConnection_def split: option.splits)

lemma teardownPeerConnection_pub_emitted [simp]:
  "pub_emitted (teardownPeerConnection p s) = pub_emitted s"
  by (simp add: teardownPeerConnection_def split: option.splits)

lemma teardownPeerConnection_console [simp]:
  "console (teardownPeerConnection p s) = console s"
  by (simp add: teardownPeerConnection_def split: option.splits)

lemma teardownPeerConnection_currentStream [simp]:
  "currentStream (teardownPeerConnection p s) = currentStream s"
  by (simp add: teardownPeerConnection_def split: option.splits)

lemma teardownPeerConnection_pendingCamera [simp]:
  "pendingCamera (teardownPeerConnection p s) = pendingCamera s"
  by (simp add: teardownPeerConnection_def split: option.splits)

lemma teardownPeerConnection_pendingCreateOffer [simp]:
  "pendingCreateOffer (teardownPeerConnection p s) = pendingCreateOffer s"
  by (simp add: teardownPeerConnection_def split: option.splits)

lemma teardownPeerConnection_peerConnections [simp]:
  "peerConnections (teardownPeerConnection p s) = AList.delete p (peerConnections s)"
  by (simp add: teardownPeerConnection_def map_of_eq_None_iff split: option.splits)

lemma teardownPeerConnection_pendingAnswers [simp]:
  "pendingAnswers (teardownPeerConnection p s) = pendingAnswers s"
  by (simp add: teardownPeerConnection_def split: option.splits)

lemma teardownPeerConnection_pub_pcs:
  "pub_pcs (teardownPeerConnection p t) =
     (case map_of (peerConnections t) p of
        None \<Rightarrow> pub_pcs t
      | Some peer \<Rightarrow> (pub_pcs t)(peer := detach_and_close (pub_pcs t peer)))"
  by (simp add: teardownPeerConnection_def split: option.splits)

lemma teardownPeerConnection_pub_pcLog:
  "pub_pcLog (teardownPeerConnection p t) =
     (case map_of (peerConnections t) p of
        None \<Rightarrow> pub_pcLog t
      | Some peer \<Rightarrow> pub_pcLog t @ pub_teardown_calls peer)"
  by (simp add: teardownPeerConnection_def split: option.splits)

lemma set_delete_subset: "set (AList.delete k al) \<subseteq> set al"
  by (auto simp: AList.delete_eq)

section \<open>Every open connection of the viewer is a registered link\<close>

text \<open>
  In every state the viewer hook reaches, a connection that has been constructed is either
  torn down or the link registered for the session its observers were attached for.
\<close>

lemma links_registered_teardownPeer:
  assumes "links_registered s"
  shows "links_registered (teardownPeer sid s)"
  unfolding links_registered_def
proof (intro allI impI)
  fix a
  assume "a < pcCount (teardownPeer sid s)"
  then have a: "a < pcCount s" by simp
  show "torn_down (pcs (teardownPeer sid s) a) \<or> registered_link (teardownPeer sid s) a"
  proof (cases "peersRef s sid")
    case None
    then have "pcs (teardownPeer sid s) = pcs s" "peersRef (teardownPeer sid s) = peersRef s"
      by (auto simp: teardownPeer_pcs)
    with assms a show ?thesis
      by (simp add: links_registered_def registered_link_def)
  next
    case (Some info)
    show ?thesis
    proof (cases "a = pc info")
      case True
      with Some show ?thesis by (simp add: teardownPeer_pcs)
    next
      case False
      with Some have same: "pcs (teardownPeer sid s) a = pcs s a"
        by (simp add: teardownPeer_pcs)
      from assms a consider "torn_down (pcs s a)" | "registered_link s a"
        by (auto simp: links_registered_def)
      then show ?thesis
      proof cases
        case 1
        with same show ?thesis by simp
      next
        case 2
        then obtain sid' info' r where r: "peersRef s sid' = Some info'" "pc info' = a"
          "onconnectionstatechange (pcs s a) = Some sid'" "ontrack (pcs s a) = Some (sid', r)"
          by (auto simp: registered_link_def)
        with Some False have "sid' \<noteq> sid" by auto
        with r same have "registered_link (teardownPeer sid s) a"
          by (auto simp: registered_link_def)
        then show ?thesis by simp
      qed
    qed
  qed
qed

lemma links_registered_cong:
  assumes "links_registered s"
    and "pcCount s' = pcCount s" and "peersRef s' = peersRef s"
    and "\<And>a. torn_down (pcs s' a) = torn_down (pcs s a)"
    and "\<And>a. onconnectionstatechange (pcs s' a) = onconnectionstatechange (pcs s a)"
    and "\<And>a. ontrack (pcs s' a) = ontrack (pcs s a)"
  shows "links_registered s'"
  using assms by (simp add: links_registered_def registered_link_def)

lemma links_registered_stopStream:
  "links_registered s \<Longrightarrow> links_registered (stopStream sid st m s)"
  by (rule links_registered_cong [OF links_registered_teardownPeer [of s sid]])
     (simp_all add: stopStream_def Let_def)

lemma links_registered_requestStream:
  "links_registered s \<Longrightarrow> links_registered (requestStream sid force s)"
  by (erule links_registered_cong)
     (simp_all add: requestStream_def ensureSocket_def Let_def split: option.splits)

lemma links_registered_stop_related:
  "links_registered s \<Longrightarrow> links_registered (stop_related related msg s)"
proof -
  have "links_registered t \<Longrightarrow>
        links_registered (fold (\<lambda>session. stopStream (session_id session) Error (Some msg)) xs t)"
    for xs :: "ProctoringSession list" and t
    by (induction xs arbitrary: t) (simp_all add: links_registered_stopStream)
  then show "links_registered s \<Longrightarrow> links_registered (stop_related related msg s)"
    by (simp add: stop_related_def)
qed

lemma links_registered_request_loop:
  "links_registered s \<Longrightarrow>
   links_registered (fold (\<lambda>session t. if c session then requestStream (session_id session) False t else t) xs s)"
  by (induction xs arbitrary: s) (simp_all add: links_registered_requestStream)

lemma links_registered_stop_loop:
  "links_registered s \<Longrightarrow>
   links_registered (fold (\<lambda>sessionId t. case snapshot sessionId of None \<Rightarrow> t
        | Some st \<Rightarrow> if c sessionId st then stopStream sessionId Idle None t else t) keys s)"
  by (induction keys arbitrary: s) (simp_all add: links_registered_stopStream split: option.splits)

lemma links_registered_autoRequestEffect:
  "links_registered s \<Longrightarrow> links_registered (autoRequestEffect keys s)"
  unfolding autoRequestEffect_def Let_def
  by (intro links_registered_stop_loop links_registered_request_loop)

lemma links_registered_sessionsChanged:
  "links_registered s \<Longrightarrow> links_registered (sessionsChanged xs s)"
  by (erule links_registered_cong) (simp_all add: sessionsChanged_def Let_def)

lemma links_registered_render: "links_registered s \<Longrightarrow> links_registered (render s)"
  by (erule links_registered_cong) (simp_all add: render_def)

lemma links_registered_onTrack: "links_registered s \<Longrightarrow> links_registered (onTrack a streams now s)"
  by (erule links_registered_cong)
     (simp_all add: onTrack_def split: option.splits list.splits)

lemma links_registered_onIceCandidate:
  "links_registered s \<Longrightarrow> links_registered (onIceCandidate a c s)"
  by (erule links_registered_cong) (simp_all add: onIceCandidate_def split: option.splits)

lemma links_registered_onIceCandidateReceived:
  "links_registered s \<Longrightarrow> links_registered (onIceCandidateReceived c sender acc s)"
  by (erule links_registered_cong)
     (simp_all add: onIceCandidateReceived_def addIceCandidate_def torn_down_def
        split: option.splits)

lemma links_registered_onConnectionStateChange:
  "links_registered s \<Longrightarrow> links_registered (onConnectionStateChange a st now s)"
proof -
  assume l: "links_registered s"
  have upd: "links_registered (s\<lparr>streamStates := m\<rparr>)" for m
    by (rule links_registered_cong [OF l]) simp_all
  from l upd show ?thesis
    by (simp add: onConnectionStateChange_def links_registered_stopStream split: option.splits)
qed

lemma links_registered_onOfferSettled:
  "links_registered s \<Longrightarrow> links_registered (onOfferSettled a r s)"
proof -
  assume l: "links_registered s"
  have p: "links_registered (s\<lparr>pendingOffers := q\<rparr>)" for q
    by (rule links_registered_cong [OF l]) simp_all
  show ?thesis
  proof (cases r)
    case (Resolved answer)
    show ?thesis
      by (rule links_registered_cong [OF l])
         (simp_all add: onOfferSettled_def Let_def Resolved torn_down_def split: option.splits)
  next
    case (Rejected m)
    with l links_registered_stopStream [OF p] show ?thesis
      by (simp add: onOfferSettled_def Let_def split: option.splits)
  qed
qed

lemma links_registered_onOfferReceived:
  assumes "links_registered s"
  shows "links_registered (onOfferReceived examId offer sender student s)"
proof (cases "List.find (\<lambda>x. session_examId x = examId \<and> session_userId x = student) (sessionsRef s)")
  case None
  with assms show ?thesis by (simp add: onOfferReceived_def)
next
  case (Some target)
  let ?sid = "session_id target"
  let ?s1 = "teardownPeer ?sid s"
  let ?s' = "onOfferReceived examId offer sender student s"
  have l1: "links_registered ?s1" using assms by (rule links_registered_teardownPeer)
  have gone: "peersRef ?s1 ?sid = None" by simp
  have cnt: "pcCount ?s' = Suc (pcCount s)"
    and peers: "peersRef ?s' = (peersRef ?s1)(?sid \<mapsto>
        \<lparr>pc = pcCount s, peer_remoteSocketId = sender, peer_examId = examId\<rparr>)"
    and store: "pcs ?s' = (pcs ?s1)(pcCount s := new_RTCPeerConnection
                      \<lparr>ontrack := Some (?sid, sender),
                       onicecandidate := Some (examId, sender),
                       onconnectionstatechange := Some ?sid\<rparr>)"
    using Some by (simp_all add: onOfferReceived_def Let_def)
  show ?thesis
    unfolding links_registered_def
  proof (intro allI impI)
    fix a
    assume "a < pcCount ?s'"
    with cnt consider "a = pcCount s" | "a < pcCount s" by force
    then show "torn_down (pcs ?s' a) \<or> registered_link ?s' a"
    proof cases
      case 1
      then have "registered_link ?s' a"
        unfolding registered_link_def peers store by simp
      then show ?thesis by simp
    next
      case 2
      with l1 consider "torn_down (pcs ?s1 a)" | "registered_link ?s1 a"
        by (auto simp: links_registered_def)
      then show ?thesis
      proof cases
        case 1
        with 2 show ?thesis unfolding store by simp
      next
        case 2
        then obtain sid' info' r where r: "peersRef ?s1 sid' = Some info'" "pc info' = a"
          "onconnectionstatechange (pcs ?s1 a) = Some sid'" "ontrack (pcs ?s1 a) = Some (sid', r)"
          by (auto simp: registered_link_def)
        with gone have "sid' \<noteq> ?sid" by auto
        with r \<open>a < pcCount s\<close> have "registered_link ?s' a"
          unfolding registered_link_def peers store by auto
        then show ?thesis by simp
      qed
    qed
  qed
qed

lemma links_registered_viewer_step: "links_registered s \<Longrightarrow> links_registered (viewer_step ev s)"
  by (cases ev)
     (simp_all add: links_registered_render links_registered_sessionsChanged
        links_registered_autoRequestEffect links_registered_requestStream
        links_registered_stopStream links_registered_stop_related onReconnectFailed_def
        onDisconnect_def onUserLeft_def links_registered_onOfferReceived
        links_registered_onOfferSettled links_registered_onTrack links_registered_onIceCandidate
        links_registered_onIceCandidateReceived links_registered_onConnectionStateChange)

lemma links_registered_fold:
  "links_registered s \<Longrightarrow> links_registered (fold viewer_step evs s)"
  by (induction evs arbitrary: s) (simp_all add: links_registered_viewer_step)

lemma links_registered_viewer_init: "links_registered viewer_init"
  by (simp add: links_registered_def viewer_init_def)

lemma links_registered_viewer_run: "links_registered (viewer_run evs)"
  unfolding viewer_run_def by (rule links_registered_fold [OF links_registered_viewer_init])

lemma attached_observer_is_registered_link:
  assumes "a < pcCount (viewer_run evs)"
    and "onconnectionstatechange (pcs (viewer_run evs) a) = Some sessionId"
  shows "\<exists>peerInfo. peersRef (viewer_run evs) sessionId = Some peerInfo \<and> pc peerInfo = a"
  using assms links_registered_viewer_run [of evs]
  by (auto simp: links_registered_def registered_link_def torn_down_def)


text \<open>On the viewer, two connections with an attached observer never serve the same session.\<close>

lemma viewer_one_link_per_session:
  assumes "a < pcCount (viewer_run evs)" and "b < pcCount (viewer_run evs)"
    and "onconnectionstatechange (pcs (viewer_run evs) a) = Some sessionId"
    and "onconnectionstatechange (pcs (viewer_run evs) b) = Some sessionId"
  shows "a = b"
  using attached_observer_is_registered_link [OF assms(1,3)]
    attached_observer_is_registered_link [OF assms(2,4)]
  by auto

section \<open>Transport states on the viewer\<close>

lemma transport_state_step:
  assumes "a < pcCount s"
    and "onconnectionstatechange (pcs s a) = Some sessionId"
    and "peersRef s sessionId = Some peerInfo"
    and "pc peerInfo = a"
    and "state = StateFailed \<or> state = StateDisconnected \<or> state = StateClosed"
  shows "(\<exists>st. streamStates (onConnectionStateChange a state now s) sessionId = Some st
            \<and> status st = (if state = StateClosed then Idle else Error)
            \<and> error st = (if state = StateFailed then Some MSG_VIDEO_NOT_ESTABLISHED
                           else if state = StateDisconnected then Some MSG_VIDEO_INTERRUPTED
                           else None)
            \<and> stream st = None \<and> remoteSocketId st = None)
       \<and> peersRef (onConnectionStateChange a state now s) sessionId = None
       \<and> isClosed (pcs (onConnectionStateChange a state now s) a)
       \<and> ontrack (pcs (onConnectionStateChange a state now s) a) = None
       \<and> onicecandidate (pcs (onConnectionStateChange a state now s) a) = None
       \<and> onconnectionstatechange (pcs (onConnectionStateChange a state now s) a) = None"
  using assms
  by (auto simp: onConnectionStateChange_def stopStream_streamStates stopStream_pcs
        teardownPeer_pcs detach_and_close_def)

text \<open>
  Claim C3.  In a state the viewer hook has reached, let the connection-state observer of
  connection \<open>a\<close> be attached for session \<open>sessionId\<close>.  When the transport reports
  \<open>failed\<close>, \<open>disconnected\<close> or \<open>closed\<close>, the session's stream state becomes \<open>Error\<close>
  with the message "video connection could not be established", \<open>Error\<close> with the message
  "video connection was interrupted", and \<open>Idle\<close> without a message, respectively.  In
  all three cases the stream handle and the remote socket id are cleared, the session has
  no link in the registry any more, the observers of the connection are detached and its
  transport is closed.
\<close>

theorem transport_state_maps_to_stream_state:
  assumes "a < pcCount (viewer_run evs)"
    and "onconnectionstatechange (pcs (viewer_run evs) a) = Some sessionId"
    and "state = StateFailed \<or> state = StateDisconnected \<or> state = StateClosed"
  shows "(\<exists>st. streamStates (onConnectionStateChange a state now (viewer_run evs)) sessionId
              = Some st
            \<and> status st = (if state = StateClosed then Idle else Error)
            \<and> error st = (if state = StateFailed then Some MSG_VIDEO_NOT_ESTABLISHED
                           else if state = StateDisconnected then Some MSG_VIDEO_INTERRUPTED
                           else None)
            \<and> stream st = None \<and> remoteSocketId st = None)
       \<and> peersRef (onConnectionStateChange a state now (viewer_run evs)) sessionId = None
       \<and> isClosed (pcs (onConnectionStateChange a state now (viewer_run evs)) a)
       \<and> ontrack (pcs (onConnectionStateChange a state now (viewer_run evs)) a) = None
       \<and> onicecandidate (pcs (onConnectionStateChange a state now (viewer_run evs)) a) = None
       \<and> onconnectionstatechange (pcs (onConnectionStateChange a state now (viewer_run evs)) a)
           = None"
proof -
  from attached_observer_is_registered_link [OF assms(1,2)]
  obtain peerInfo where "peersRef (viewer_run evs) sessionId = Some peerInfo" "pc peerInfo = a"
    by blast
  from transport_state_step [OF assms(1,2) this assms(3)] show ?thesis .
qed

theorem transport_state_maps_to_stream_state_witness:
  "0 < pcCount (viewer_run ex_negotiating)
   \<and> onconnectionstatechange (pcs (viewer_run ex_negotiating) 0) = Some ''s1''
   \<and> (\<exists>st. streamStates (onConnectionStateChange 0 StateClosed 7 (viewer_run ex_negotiating)) ''s1''
              = Some st
          \<and> status st = Idle \<and> error st = None \<and> stream st = None)
   \<and> peersRef (onConnectionStateChange 0 StateClosed 7 (viewer_run ex_negotiating)) ''s1'' = None
   \<and> isClosed (pcs (onConnectionStateChange 0 StateClosed 7 (viewer_run ex_negotiating)) 0)"
proof -
  have h1: "0 < pcCount (viewer_run ex_negotiating)"
    by code_simp
  have h2: "onconnectionstatechange (pcs (viewer_run ex_negotiating) 0) = Some ''s1''"
    by code_simp
  have h3: "StateClosed = StateFailed \<or> StateClosed = StateDisconnected \<or> StateClosed = StateClosed"
    by simp
  note c = transport_state_maps_to_stream_state [OF h1 h2 h3, of 7, simplified]
  from c obtain st where
    "streamStates (onConnectionStateChange 0 StateClosed 7 (viewer_run ex_negotiating)) ''s1''
       = Some st"
    "status st = Idle" "error st = None" "stream st = None"
    by blast
  with c h1 h2 show ?thesis by blast
qed

section \<open>Candidates from unknown endpoints\<close>

text \<open>
  Claim C4.  An inbound ICE-candidate event whose sender socket id has no entry in
  \<open>remoteSessionMap\<close>, or whose mapped session has no registered peer connection, is
  dropped: the handler returns the state it was given, so no stream state of any session
  (and nothing else) changes.
\<close>

theorem unmapped_candidate_is_dropped:
  assumes "remoteSessionMap s senderSocketId = None
         \<or> (\<exists>sessionId. remoteSessionMap s senderSocketId = Some sessionId
               \<and> peersRef s sessionId = None)"
  shows "viewer_step (IceCandidateReceived examId candidate senderSocketId accepted) s = s"
  using assms by (auto simp: onIceCandidateReceived_def)

theorem unmapped_candidate_is_dropped_witness:
  "remoteSessionMap (viewer_run ex_negotiating) ''R9'' = None
   \<and> viewer_step (IceCandidateReceived ''exam1'' (Some ''candidate'') ''R9'' True)
        (viewer_run ex_negotiating) = viewer_run ex_negotiating"
proof -
  have h: "remoteSessionMap (viewer_run ex_negotiating) ''R9'' = None"
    by code_simp
  then have "remoteSessionMap (viewer_run ex_negotiating) ''R9'' = None
         \<or> (\<exists>sessionId. remoteSessionMap (viewer_run ex_negotiating) ''R9'' = Some sessionId
               \<and> peersRef (viewer_run ex_negotiating) sessionId = None)"
    by simp
  from unmapped_candidate_is_dropped [OF this] h show ?thesis by simp
qed

text \<open>For comparison, a candidate from the mapped endpoint reaches the session's connection.\<close>

lemma mapped_candidate_is_applied:
  "remoteCandidates
     (pcs (viewer_step (IceCandidateReceived ''exam1'' (Some ''candidate'') ''R1'' True)
             (viewer_run ex_negotiating)) 0) = [Some ''candidate'']"
  by code_simp

section \<open>Capture failure on the publisher\<close>

text \<open>
  Claim C8.  The publisher answers an offer request while its socket is connected and no
  camera stream is at hand, and the acquisition of the camera then fails.  The operation
  logs the error "cannot initialise the camera to stream to the proctor" and stops: no
  peer connection object has been constructed, the peer map has no entry for the
  requesting proctor and no entry that it did not have before, no offer creation is
  pending, and nothing has been transmitted.
\<close>

theorem capture_failure_aborts_before_transport:
  assumes "socketConnected s = Some True" and "currentStream s = None"
  shows "pub_pcCount (onCameraSettled proctorSocketId (Rejected m)
                        (respondToProctorOfferRequest proctorSocketId s)) = pub_pcCount s
       \<and> map_of (peerConnections (onCameraSettled proctorSocketId (Rejected m)
                        (respondToProctorOfferRequest proctorSocketId s))) proctorSocketId = None
       \<and> set (peerConnections (onCameraSettled proctorSocketId (Rejected m)
                        (respondToProctorOfferRequest proctorSocketId s)))
            \<subseteq> set (peerConnections s)
       \<and> pendingCreateOffer (onCameraSettled proctorSocketId (Rejected m)
                        (respondToProctorOfferRequest proctorSocketId s)) = pendingCreateOffer s
       \<and> pub_emitted (onCameraSettled proctorSocketId (Rejected m)
                        (respondToProctorOfferRequest proctorSocketId s)) = pub_emitted s
       \<and> console (onCameraSettled proctorSocketId (Rejected m)
                        (respondToProctorOfferRequest proctorSocketId s))
            = console s @ [ConsoleError MSG_CAMERA_INIT_FAILED]"
  using assms
  by (auto simp: onCameraSettled_def respondToProctorOfferRequest_def Let_def AList.delete_conv'
           split: option.splits dest: set_mp [OF set_delete_subset])

theorem capture_failure_aborts_before_transport_witness:
  "socketConnected pub_connected = Some True \<and> currentStream pub_connected = None
   \<and> pub_pcCount (onCameraSettled ''R'' (Rejected (Some ''NotAllowedError''))
                     (respondToProctorOfferRequest ''R'' pub_connected)) = 0
   \<and> peerConnections (onCameraSettled ''R'' (Rejected (Some ''NotAllowedError''))
                     (respondToProctorOfferRequest ''R'' pub_connected)) = []
   \<and> pub_emitted (onCameraSettled ''R'' (Rejected (Some ''NotAllowedError''))
                     (respondToProctorOfferRequest ''R'' pub_connected)) = []
   \<and> console (onCameraSettled ''R'' (Rejected (Some ''NotAllowedError''))
                     (respondToProctorOfferRequest ''R'' pub_connected))
        = [ConsoleError MSG_CAMERA_INIT_FAILED]"
proof -
  have h1: "socketConnected pub_connected = Some True"
    by (simp add: pub_connected_def)
  have h2: "currentStream pub_connected = None"
    by (simp add: pub_connected_def)
  have e: "pub_pcCount pub_connected = 0" "peerConnections pub_connected = []"
    "pub_emitted pub_connected = []" "console pub_connected = []"
    by (simp_all add: pub_connected_def)
  from capture_failure_aborts_before_transport [OF h1 h2, of "''R''" "Some ''NotAllowedError''"]
    h1 h2 e
  show ?thesis by simp
qed

section \<open>Duplicate answers on the publisher\<close>

text \<open>
  The guard of \<^verbatim>\<open>handleAnswerReceived\<close>: without a connection for the sender, or with a
  remote description of the answer's type, the handler does nothing; otherwise it calls
  \<^verbatim>\<open>setRemoteDescription\<close>, and the answer is the remote description once that call has
  succeeded.
\<close>

lemma handleAnswerReceived_no_peer:
  "map_of (peerConnections s) senderSocketId = None \<Longrightarrow>
   handleAnswerReceived answer senderSocketId s = s"
  by (simp add: handleAnswerReceived_def)

lemma handleAnswerReceived_already_set:
  "map_of (peerConnections s) senderSocketId = Some peer \<Longrightarrow>
   remoteDescription (pub_pcs s peer) = Some d \<Longrightarrow> sdp_type d = sdp_type answer \<Longrightarrow>
   handleAnswerReceived (Some answer) senderSocketId s = s"
  by (simp add: handleAnswerReceived_def needs_remote_description_def)

lemma handleAnswerReceived_applies:
  assumes "map_of (peerConnections s) senderSocketId = Some peer"
    and "remoteDescription (pub_pcs s peer) = None
         \<or> (\<exists>d. remoteDescription (pub_pcs s peer) = Some d \<and> sdp_type d \<noteq> sdp_type answer)"
  shows "pendingAnswers (handleAnswerReceived (Some answer) senderSocketId s)
           = pendingAnswers s @ [(peer, senderSocketId, answer)]"
    and "remoteDescription
           (pub_pcs (onAnswerSettled (length (pendingAnswers s)) (Resolved ())
                       (handleAnswerReceived (Some answer) senderSocketId s)) peer)
           = Some answer"
  using assms
  by (auto simp: handleAnswerReceived_def needs_remote_description_def onAnswerSettled_def
        Let_def nth_append)

text \<open>
  When the first delivery has settled before the second one is handled, the second
  delivery changes nothing, whether the first call succeeded or failed.
\<close>

lemma sequential_deliveries_apply_once:
  assumes "pendingAnswers s = []"
  shows "handleAnswerReceived (Some answer) senderSocketId
           (onAnswerSettled 0 result (handleAnswerReceived (Some answer) senderSocketId s))
         = onAnswerSettled 0 result (handleAnswerReceived (Some answer) senderSocketId s)"
proof (cases "map_of (peerConnections s) senderSocketId")
  case None
  with assms show ?thesis
    by (simp add: handleAnswerReceived_def onAnswerSettled_def)
next
  case (Some peer)
  show ?thesis
  proof (cases "needs_remote_description (pub_pcs s peer) answer")
    case False
    with Some assms show ?thesis
      by (simp add: handleAnswerReceived_def onAnswerSettled_def)
  next
    case True
    show ?thesis
    proof (cases result)
      case (Resolved u)
      with Some True assms show ?thesis
        by (simp add: handleAnswerReceived_def onAnswerSettled_def needs_remote_description_def)
    next
      case (Rejected m)
      with Some True assms show ?thesis
        by (simp add: handleAnswerReceived_def onAnswerSettled_def AList.delete_conv')
    qed
  qed
qed

lemma sequential_duplicate_answer_is_skipped:
  "pendingAnswers (publisher_run ''u1'' pub_answer_sequential) = []
   \<and> peerConnections (publisher_run ''u1'' pub_answer_sequential) = [(''R'', 0)]
   \<and> remoteDescription (pub_pcs (publisher_run ''u1'' pub_answer_sequential) 0) = Some ex_answer
   \<and> \<not> isClosed (pub_pcs (publisher_run ''u1'' pub_answer_sequential) 0)"
  by code_simp

text \<open>
  Claim C6 says that applying the same answer twice leaves the peer connection in the state
  reached by applying it once.  The guard of \<^verbatim>\<open>handleAnswerReceived\<close> reads
  \<^verbatim>\<open>remoteDescription\<close>, which is still \<^verbatim>\<open>null\<close> while the first call of
  \<^verbatim>\<open>setRemoteDescription\<close> is pending.  In \<open>pub_answer_overlap\<close> the duplicate arrives in
  that window: both deliveries pass the guard and call \<^verbatim>\<open>setRemoteDescription\<close>; the
  first call succeeds, the second is rejected, and the \<^verbatim>\<open>catch\<close> block of the second
  delivery tears the link down.  After one delivery the link is registered, open and has
  the answer as remote description; after the overlapping duplicate it is closed and gone
  from the map.
\<close>

theorem overlapping_duplicate_answer_tears_link_down:
  "peerConnections (publisher_run ''u1'' pub_offering) = [(''R'', 0)]
   \<and> remoteDescription (pub_pcs (publisher_run ''u1'' pub_offering) 0) = None
   \<and> peerConnections (publisher_run ''u1'' pub_answer_once) = [(''R'', 0)]
   \<and> remoteDescription (pub_pcs (publisher_run ''u1'' pub_answer_once) 0) = Some ex_answer
   \<and> \<not> isClosed (pub_pcs (publisher_run ''u1'' pub_answer_once) 0)
   \<and> console (publisher_run ''u1'' pub_answer_once) = []
   \<and> pendingAnswers
        (publisher_run ''u1''
           (pub_offering @ [AnswerReceived (Some ex_answer) ''R'',
                            AnswerReceived (Some ex_answer) ''R'']))
       = [(0, ''R'', ex_answer), (0, ''R'', ex_answer)]
   \<and> peerConnections (publisher_run ''u1'' pub_answer_overlap) = []
   \<and> isClosed (pub_pcs (publisher_run ''u1'' pub_answer_overlap) 0)
   \<and> console (publisher_run ''u1'' pub_answer_overlap)
       = [ConsoleError MSG_REMOTE_DESCRIPTION_FAILED]"
  by code_simp

section \<open>Loss of the signaling channel\<close>

text \<open>
  Claim C7, as stated, speaks of every session belonging to the exam.  The
  \<^verbatim>\<open>disconnect\<close> handler stops the sessions that \<^verbatim>\<open>sessionsRef\<close> lists for the exam at
  that moment; the exam recorded with each link in \<^verbatim>\<open>peersRef\<close> is never read.  In the
  run \<open>ex_dropped\<close> the session \<open>s1\<close> of \<open>exam1\<close> is live and has left the session list.
  After \<^verbatim>\<open>disconnect\<close> on the socket of \<open>exam1\<close> it is still \<open>Live\<close> with its stream handle,
  and its link is still registered, open and observed; the listed session \<open>s2\<close> is in
  \<open>Error\<close>.
\<close>

theorem dropped_session_survives_disconnect:
  "map session_id (sessionsRef (viewer_run ex_dropped)) = [''s2'']
   \<and> ''exam1'' \<in> socketsRef (viewer_run ex_dropped)
   \<and> peersRef (viewer_run ex_dropped) ''s1''
       = Some \<lparr>pc = 0, peer_remoteSocketId = ''R1'', peer_examId = ''exam1''\<rparr>
   \<and> map_option status (streamStates (viewer_run ex_dropped) ''s1'') = Some Live
   \<and> map_option status
        (streamStates (viewer_step (Disconnect ''exam1'') (viewer_run ex_dropped)) ''s1'')
       = Some Live
   \<and> map_option stream
        (streamStates (viewer_step (Disconnect ''exam1'') (viewer_run ex_dropped)) ''s1'')
       = Some (Some ex_stream)
   \<and> peersRef (viewer_step (Disconnect ''exam1'') (viewer_run ex_dropped)) ''s1''
       = Some \<lparr>pc = 0, peer_remoteSocketId = ''R1'', peer_examId = ''exam1''\<rparr>
   \<and> \<not> isClosed (pcs (viewer_step (Disconnect ''exam1'') (viewer_run ex_dropped)) 0)
   \<and> ontrack (pcs (viewer_step (Disconnect ''exam1'') (viewer_run ex_dropped)) 0)
       = Some (''s1'', ''R1'')
   \<and> map_option status
        (streamStates (viewer_step (Disconnect ''exam1'') (viewer_run ex_dropped)) ''s2'')
       = Some Error"
  by code_simp

text \<open>
  Claim C7, amended.  When the viewer's socket of an exam emits \<^verbatim>\<open>disconnect\<close>, every
  session of the current session list that belongs to that exam ends in stream state
  \<open>Error\<close> with the message "lost the connection to the proctoring server", with no
  stream handle and no remote socket id; its entry in the peer registry is gone, and the
  connection that was registered for it is closed with all observers detached.  The
  handler does this in the \<^verbatim>\<open>disconnect\<close> event itself and does not wait for a
  reconnection.
\<close>

theorem disconnect_stops_sessions_of_exam:
  assumes "examId \<in> socketsRef s"
    and "session \<in> set (sessionsRef s)"
    and "session_examId session = examId"
  shows "(\<exists>e. streamStates (viewer_step (Disconnect examId) s) (session_id session) = Some e
            \<and> status e = Error \<and> error e = Some MSG_SERVER_LOST
            \<and> stream e = None \<and> remoteSocketId e = None)
       \<and> peersRef (viewer_step (Disconnect examId) s) (session_id session) = None
       \<and> (\<forall>peerInfo. peersRef s (session_id session) = Some peerInfo \<longrightarrow>
             torn_down (pcs (viewer_step (Disconnect examId) s) (pc peerInfo)))"
proof -
  let ?xs = "filter (\<lambda>x. session_examId x = examId) (sessionsRef s)"
  from assms have mem: "session_id session \<in> session_id ` set ?xs" by auto
  from assms(1) have step: "viewer_step (Disconnect examId) s
      = fold (\<lambda>x. stopStream (session_id x) Error (Some MSG_SERVER_LOST)) ?xs s"
    by (simp add: onDisconnect_def stop_related_def)
  have a: "\<exists>e. streamStates (viewer_step (Disconnect examId) s) (session_id session) = Some e
            \<and> status e = Error \<and> error e = Some MSG_SERVER_LOST
            \<and> stream e = None \<and> remoteSocketId e = None"
    unfolding step
    using stop_all_streamStates [OF mem, of Error "Some MSG_SERVER_LOST" s] by blast
  have b: "peersRef (viewer_step (Disconnect examId) s) (session_id session) = None"
    unfolding step using mem by (simp only: stop_all_peersRef if_True)
  have c: "\<forall>peerInfo. peersRef s (session_id session) = Some peerInfo \<longrightarrow>
             torn_down (pcs (viewer_step (Disconnect examId) s) (pc peerInfo))"
    unfolding step using stop_all_tears_down [OF mem] by blast
  from a b c show ?thesis by blast
qed

theorem disconnect_stops_sessions_of_exam_witness:
  "''exam1'' \<in> socketsRef (viewer_run ex_live)
   \<and> ex_session \<in> set (sessionsRef (viewer_run ex_live))
   \<and> map_option status (streamStates (viewer_run ex_live) ''s1'') = Some Live
   \<and> peersRef (viewer_run ex_live) ''s1''
       = Some \<lparr>pc = 0, peer_remoteSocketId = ''R1'', peer_examId = ''exam1''\<rparr>
   \<and> (\<exists>e. streamStates (viewer_step (Disconnect ''exam1'') (viewer_run ex_live)) ''s1'' = Some e
          \<and> status e = Error \<and> error e = Some MSG_SERVER_LOST \<and> stream e = None)
   \<and> peersRef (viewer_step (Disconnect ''exam1'') (viewer_run ex_live)) ''s1'' = None
   \<and> torn_down (pcs (viewer_step (Disconnect ''exam1'') (viewer_run ex_live)) 0)"
proof -
  have h1: "''exam1'' \<in> socketsRef (viewer_run ex_live)"
    by code_simp
  have h2: "ex_session \<in> set (sessionsRef (viewer_run ex_live))"
    by code_simp
  have h3: "session_examId ex_session = ''exam1''"
    by (simp add: ex_session_def)
  have id: "session_id ex_session = ''s1''"
    by (simp add: ex_session_def)
  have live: "map_option status (streamStates (viewer_run ex_live) ''s1'') = Some Live"
    by code_simp
  have peer: "peersRef (viewer_run ex_live) ''s1''
       = Some \<lparr>pc = 0, peer_remoteSocketId = ''R1'', peer_examId = ''exam1''\<rparr>"
    by code_simp
  note c = disconnect_stops_sessions_of_exam [OF h1 h2 h3, unfolded id]
  from c peer have "torn_down (pcs (viewer_step (Disconnect ''exam1'') (viewer_run ex_live)) 0)"
    by auto
  with c h1 h2 live peer show ?thesis by blast
qed

section \<open>Idle and error entries of the stream-state store\<close>

lemma clean_map_upd: "clean_map m \<Longrightarrow> clean_entry e \<Longrightarrow> clean_map (m(k \<mapsto> e))"
  by (simp add: clean_map_def)

lemma clean_stopStream: "clean_store s \<Longrightarrow> clean_store (stopStream sid st m s)"
  by (simp add: clean_store_def stopStream_streamStates clean_map_upd clean_entry_def)

lemma requestStream_streamStatesRef [simp]:
  "streamStatesRef (requestStream sid force s) = streamStatesRef s"
  by (simp add: requestStream_def ensureSocket_def Let_def split: option.splits)

lemma clean_requestStream: "clean_store s \<Longrightarrow> clean_store (requestStream sid force s)"
  by (auto simp: clean_store_def requestStream_def ensureSocket_def Let_def clean_entry_def
           intro!: clean_map_upd split: option.splits)

lemma clean_stop_related: "clean_store s \<Longrightarrow> clean_store (stop_related related msg s)"
proof -
  have "clean_store t \<Longrightarrow>
        clean_store (fold (\<lambda>session. stopStream (session_id session) Error (Some msg)) xs t)"
    for xs :: "ProctoringSession list" and t
    by (induction xs arbitrary: t) (simp_all add: clean_stopStream)
  then show "clean_store s \<Longrightarrow> clean_store (stop_related related msg s)"
    by (simp add: stop_related_def)
qed

lemma clean_render: "clean_store s \<Longrightarrow> clean_store (render s)"
  by (simp add: clean_store_def render_def)

lemma clean_idle_fold:
  "clean_map m \<Longrightarrow>
   clean_map (fold (\<lambda>session next.
                      if next (session_id session) = None
                      then next(session_id session \<mapsto> idle_state) else next) xs m)"
  by (induction xs arbitrary: m) (simp_all add: clean_map_upd clean_entry_def idle_state_def)

lemma clean_sessionsChanged: "clean_store s \<Longrightarrow> clean_store (sessionsChanged xs s)"
  by (simp add: clean_store_def sessionsChanged_def Let_def clean_idle_fold)

lemma clean_request_loop:
  "clean_store s \<Longrightarrow>
   clean_store (fold (\<lambda>session t. if c session then requestStream (session_id session) False t else t) xs s)"
  by (induction xs arbitrary: s) (simp_all add: clean_requestStream)

lemma clean_stop_loop:
  "clean_store s \<Longrightarrow>
   clean_store (fold (\<lambda>sessionId t. case snapshot sessionId of None \<Rightarrow> t
        | Some st \<Rightarrow> if c sessionId st then stopStream sessionId Idle None t else t) keys s)"
  by (induction keys arbitrary: s) (simp_all add: clean_stopStream split: option.splits)

lemma clean_autoRequestEffect: "clean_store s \<Longrightarrow> clean_store (autoRequestEffect keys s)"
  unfolding autoRequestEffect_def Let_def
  by (intro clean_stop_loop clean_request_loop)

lemma clean_onOfferReceived:
  "clean_store s \<Longrightarrow> clean_store (onOfferReceived examId offer sender student s)"
  by (simp add: clean_store_def onOfferReceived_def Let_def split: option.splits)

lemma clean_onOfferSettled: "clean_store s \<Longrightarrow> clean_store (onOfferSettled a r s)"
proof -
  assume c: "clean_store s"
  have p: "clean_store (s\<lparr>pendingOffers := q\<rparr>)" for q
    using c by (simp add: clean_store_def)
  show ?thesis
    using c
    by (auto simp: onOfferSettled_def Let_def clean_stopStream [OF p] split: option.splits outcome.splits)
       (auto simp: clean_store_def clean_entry_def intro!: clean_map_upd)
qed

lemma clean_onTrack: "clean_store s \<Longrightarrow> clean_store (onTrack a streams now s)"
  by (auto simp: clean_store_def onTrack_def clean_entry_def intro!: clean_map_upd
           split: option.splits list.splits)

lemma clean_onIceCandidate: "clean_store s \<Longrightarrow> clean_store (onIceCandidate a c s)"
  by (auto simp: clean_store_def onIceCandidate_def split: option.splits)

lemma clean_onIceCandidateReceived:
  "clean_store s \<Longrightarrow> clean_store (onIceCandidateReceived c sender acc s)"
  by (auto simp: clean_store_def onIceCandidateReceived_def split: option.splits)

lemma clean_onConnectionStateChange:
  "clean_store s \<Longrightarrow> clean_store (onConnectionStateChange a st now s)"
  by (auto simp: onConnectionStateChange_def clean_stopStream split: option.splits)
     (auto simp: clean_store_def clean_entry_def intro!: clean_map_upd)

lemma clean_viewer_step: "clean_store s \<Longrightarrow> clean_store (viewer_step ev s)"
  by (cases ev)
     (simp_all add: clean_render clean_sessionsChanged clean_autoRequestEffect clean_requestStream
        clean_stopStream clean_stop_related onReconnectFailed_def onDisconnect_def onUserLeft_def
        clean_onOfferReceived clean_onOfferSettled clean_onTrack clean_onIceCandidate
        clean_onIceCandidateReceived clean_onConnectionStateChange)

lemma clean_viewer_init: "clean_store viewer_init"
  by (simp add: clean_store_def clean_map_def viewer_init_def)

lemma clean_fold_viewer_step: "clean_store s \<Longrightarrow> clean_store (fold viewer_step evs s)"
  by (induction evs arbitrary: s) (simp_all add: clean_viewer_step)

lemma clean_viewer_run: "clean_store (viewer_run evs)"
  by (simp add: viewer_run_def clean_fold_viewer_step clean_viewer_init)

text \<open>
  Claim C10.  In every state that a run of the viewer hook reaches, an entry of the
  stream-state store (of the committed state, and of the snapshot the handlers read) whose
  status is \<open>Idle\<close> or \<open>Error\<close> has no stream handle and no remote socket id.
\<close>

theorem idle_and_error_entries_are_clean:
  assumes "streamStates (viewer_run evs) sid = Some e
         \<or> streamStatesRef (viewer_run evs) sid = Some e"
    and "status e = Idle \<or> status e = Error"
  shows "stream e = None \<and> remoteSocketId e = None"
  using assms clean_viewer_run [of evs]
  by (auto simp: clean_store_def clean_map_def clean_entry_def)

theorem idle_and_error_entries_are_clean_witness:
  "map_option stream (streamStates (viewer_run ex_live) ''s1'') = Some (Some ex_stream)
   \<and> (\<exists>e. streamStates (viewer_run ex_disconnected) ''s1'' = Some e
          \<and> status e = Error \<and> stream e = None \<and> remoteSocketId e = None)"
proof -
  have before: "map_option stream (streamStates (viewer_run ex_live) ''s1'') = Some (Some ex_stream)"
    by code_simp
  have "map_option status (streamStates (viewer_run ex_disconnected) ''s1'') = Some Error"
    by code_simp
  then obtain e where h1: "streamStates (viewer_run ex_disconnected) ''s1'' = Some e"
    and st: "status e = Error"
    by auto
  from h1 have h1': "streamStates (viewer_run ex_disconnected) ''s1'' = Some e
         \<or> streamStatesRef (viewer_run ex_disconnected) ''s1'' = Some e"
    by simp
  from st have h2: "status e = Idle \<or> status e = Error"
    by simp
  from idle_and_error_entries_are_clean [OF h1' h2] h1 st before show ?thesis by blast
qed

section \<open>Transitions into the live status\<close>

lemma entry_not_live_iff: "entry_not_live e \<longleftrightarrow> map_option status e \<noteq> Some Live"
  by (cases e) (simp_all add: entry_not_live_def)

lemma entry_not_live_simps [simp]:
  "entry_not_live None" "entry_not_live (Some st) \<longleftrightarrow> status st \<noteq> Live"
  by (simp_all add: entry_not_live_def)

lemma not_live_stopStream:
  "st \<noteq> Live \<Longrightarrow> not_live sid s \<Longrightarrow> not_live sid (stopStream sid' st m s)"
  by (simp add: not_live_def stopStream_streamStates)

lemma not_live_requestStream: "not_live sid s \<Longrightarrow> not_live sid (requestStream sid' force s)"
  by (simp add: not_live_def requestStream_def ensureSocket_def Let_def split: option.splits)

lemma not_live_stop_related: "not_live sid s \<Longrightarrow> not_live sid (stop_related related msg s)"
proof -
  have "not_live sid t \<Longrightarrow>
        not_live sid (fold (\<lambda>session. stopStream (session_id session) Error (Some msg)) xs t)"
    for xs :: "ProctoringSession list" and t
    by (induction xs arbitrary: t) (simp_all add: not_live_stopStream)
  then show "not_live sid s \<Longrightarrow> not_live sid (stop_related related msg s)"
    by (simp add: stop_related_def)
qed

lemma not_live_idle_fold:
  "entry_not_live (m sid) \<Longrightarrow>
   entry_not_live
     (fold (\<lambda>session next.
              if next (session_id session) = None
              then next(session_id session \<mapsto> idle_state) else next) xs m sid)"
proof (induction xs arbitrary: m)
  case Nil
  then show ?case by simp
next
  case (Cons x xs)
  let ?m = "if m (session_id x) = None then m(session_id x \<mapsto> idle_state) else m"
  from Cons.prems have "entry_not_live (?m sid)"
    by (simp add: idle_state_def)
  from Cons.IH [of ?m, OF this] show ?case by simp
qed

lemma not_live_sessionsChanged: "not_live sid s \<Longrightarrow> not_live sid (sessionsChanged xs s)"
  by (simp add: not_live_def sessionsChanged_def Let_def not_live_idle_fold)

lemma not_live_request_loop:
  "not_live sid s \<Longrightarrow>
   not_live sid (fold (\<lambda>session t. if c session then requestStream (session_id session) False t else t) xs s)"
  by (induction xs arbitrary: s) (simp_all add: not_live_requestStream)

lemma not_live_stop_loop:
  "not_live sid s \<Longrightarrow>
   not_live sid (fold (\<lambda>sessionId t. case snapshot sessionId of None \<Rightarrow> t
        | Some st \<Rightarrow> if c sessionId st then stopStream sessionId Idle None t else t) keys s)"
  by (induction keys arbitrary: s) (simp_all add: not_live_stopStream split: option.splits)

lemma not_live_autoRequestEffect: "not_live sid s \<Longrightarrow> not_live sid (autoRequestEffect keys s)"
  unfolding autoRequestEffect_def Let_def
  by (intro not_live_stop_loop not_live_request_loop)

lemma not_live_onOfferReceived:
  "not_live sid s \<Longrightarrow> not_live sid (onOfferReceived examId offer sender student s)"
  by (simp add: not_live_def onOfferReceived_def Let_def split: option.splits)

lemma not_live_onOfferSettled: "not_live sid s \<Longrightarrow> not_live sid (onOfferSettled a r s)"
proof -
  assume c: "not_live sid s"
  have p: "not_live sid (s\<lparr>pendingOffers := q\<rparr>)" for q
    using c by (simp add: not_live_def)
  show ?thesis
    using c
    by (auto simp: onOfferSettled_def Let_def not_live_stopStream [OF _ p]
             split: option.splits outcome.splits)
       (auto simp: not_live_def)
qed

lemma not_live_onIceCandidate: "not_live sid s \<Longrightarrow> not_live sid (onIceCandidate a c s)"
  by (auto simp: not_live_def onIceCandidate_def split: option.splits)

lemma not_live_onIceCandidateReceived:
  "not_live sid s \<Longrightarrow> not_live sid (onIceCandidateReceived c sender acc s)"
  by (auto simp: not_live_def onIceCandidateReceived_def split: option.splits)

lemma not_live_other_events:
  assumes "not_live sid s"
    and "\<And>a streams now. ev \<noteq> Track a streams now"
    and "\<And>a now. ev \<noteq> ConnectionStateChange a StateConnected now"
  shows "not_live sid (viewer_step ev s)"
proof (cases ev)
  case Render
  with assms(1) show ?thesis by (simp add: not_live_def render_def)
next
  case (ConnectionStateChange a state now)
  with assms(3) have "state \<noteq> StateConnected" by auto
  with assms(1) ConnectionStateChange show ?thesis
    by (auto simp: onConnectionStateChange_def not_live_stopStream split: option.splits)
next
  case (Track a streams now)
  with assms(2) show ?thesis by blast
qed (use assms(1) in \<open>simp_all add: not_live_sessionsChanged not_live_autoRequestEffect
      not_live_requestStream not_live_stopStream not_live_stop_related onReconnectFailed_def
      onDisconnect_def onUserLeft_def not_live_onOfferReceived not_live_onOfferSettled
      not_live_onIceCandidate not_live_onIceCandidateReceived\<close>)

lemma live_by_track:
  assumes "map_option status (streamStates (onTrack a streams now s) sid) = Some Live"
    and "map_option status (streamStates s sid) \<noteq> Some Live"
  shows "\<exists>senderSocketId remoteStream rest.
           streams = remoteStream # rest \<and> a < pcCount s
         \<and> ontrack (pcs s a) = Some (sid, senderSocketId)
         \<and> ms_tracks remoteStream \<noteq> []
         \<and> map_option stream (streamStates (onTrack a streams now s) sid) = Some (Some remoteStream)"
  using assms
  by (auto simp: onTrack_def split: if_splits option.splits list.splits)

lemma live_by_connected:
  assumes "map_option status
             (streamStates (onConnectionStateChange a StateConnected now s) sid) = Some Live"
    and "map_option status (streamStates s sid) \<noteq> Some Live"
  shows "\<exists>currentState.
           a < pcCount s \<and> onconnectionstatechange (pcs s a) = Some sid
         \<and> streamStatesRef s sid = Some currentState
         \<and> stream currentState \<noteq> None \<and> status currentState \<noteq> Live"
  using assms
  by (auto simp: onConnectionStateChange_def split: if_splits option.splits)

lemma connected_without_handle:
  assumes "onconnectionstatechange (pcs s a) = Some sid"
    and "streamStatesRef s sid = None
       \<or> (\<exists>currentState. streamStatesRef s sid = Some currentState \<and> stream currentState = None)"
  shows "onConnectionStateChange a StateConnected now s = s"
  using assms by (auto simp: onConnectionStateChange_def)

lemma entry_quiet_simps [simp]:
  "entry_quiet None" "entry_quiet (Some st) \<longleftrightarrow> status st \<noteq> Live \<and> stream st = None"
  by (simp_all add: entry_quiet_def)

lemma quiet_stopStream:
  "st \<noteq> Live \<Longrightarrow> quiet sid s \<Longrightarrow> quiet sid (stopStream sid' st m s)"
  by (simp add: quiet_def stopStream_streamStates)

lemma quiet_requestStream: "quiet sid s \<Longrightarrow> quiet sid (requestStream sid' force s)"
  by (auto simp: quiet_def requestStream_def ensureSocket_def Let_def split: option.splits)

lemma quiet_stop_related: "quiet sid s \<Longrightarrow> quiet sid (stop_related related msg s)"
proof -
  have "quiet sid t \<Longrightarrow>
        quiet sid (fold (\<lambda>session. stopStream (session_id session) Error (Some msg)) xs t)"
    for xs :: "ProctoringSession list" and t
    by (induction xs arbitrary: t) (simp_all add: quiet_stopStream)
  then show "quiet sid s \<Longrightarrow> quiet sid (stop_related related msg s)"
    by (simp add: stop_related_def)
qed

lemma quiet_idle_fold:
  "entry_quiet (m sid) \<Longrightarrow>
   entry_quiet
     (fold (\<lambda>session next.
              if next (session_id session) = None
              then next(session_id session \<mapsto> idle_state) else next) xs m sid)"
proof (induction xs arbitrary: m)
  case Nil
  then show ?case by simp
next
  case (Cons x xs)
  let ?m = "if m (session_id x) = None then m(session_id x \<mapsto> idle_state) else m"
  from Cons.prems have "entry_quiet (?m sid)"
    by (simp add: idle_state_def)
  from Cons.IH [of ?m, OF this] show ?case by simp
qed

lemma quiet_sessionsChanged: "quiet sid s \<Longrightarrow> quiet sid (sessionsChanged xs s)"
  by (simp add: quiet_def sessionsChanged_def Let_def quiet_idle_fold)

lemma quiet_request_loop:
  "quiet sid s \<Longrightarrow>
   quiet sid (fold (\<lambda>session t. if c session then requestStream (session_id session) False t else t) xs s)"
  by (induction xs arbitrary: s) (simp_all add: quiet_requestStream)

lemma quiet_stop_loop:
  "quiet sid s \<Longrightarrow>
   quiet sid (fold (\<lambda>sessionId t. case snapshot sessionId of None \<Rightarrow> t
        | Some st \<Rightarrow> if c sessionId st then stopStream sessionId Idle None t else t) keys s)"
  by (induction keys arbitrary: s) (simp_all add: quiet_stopStream split: option.splits)

lemma quiet_autoRequestEffect: "quiet sid s \<Longrightarrow> quiet sid (autoRequestEffect keys s)"
  unfolding autoRequestEffect_def Let_def
  by (intro quiet_stop_loop quiet_request_loop)

lemma quiet_onOfferReceived:
  "quiet sid s \<Longrightarrow> quiet sid (onOfferReceived examId offer sender student s)"
  by (simp add: quiet_def onOfferReceived_def Let_def split: option.splits)

lemma quiet_onOfferSettled: "quiet sid s \<Longrightarrow> quiet sid (onOfferSettled a r s)"
proof -
  assume c: "quiet sid s"
  have p: "quiet sid (s\<lparr>pendingOffers := q\<rparr>)" for q
    using c by (simp add: quiet_def)
  show ?thesis
    using c
    by (auto simp: onOfferSettled_def Let_def quiet_stopStream [OF _ p]
             split: option.splits outcome.splits)
       (auto simp: quiet_def split: option.splits)
qed

lemma quiet_onIceCandidate: "quiet sid s \<Longrightarrow> quiet sid (onIceCandidate a c s)"
  by (auto simp: quiet_def onIceCandidate_def split: option.splits)

lemma quiet_onIceCandidateReceived:
  "quiet sid s \<Longrightarrow> quiet sid (onIceCandidateReceived c sender acc s)"
  by (auto simp: quiet_def onIceCandidateReceived_def split: option.splits)

lemma quiet_onConnectionStateChange:
  "quiet sid s \<Longrightarrow> quiet sid (onConnectionStateChange a st now s)"
  by (auto simp: onConnectionStateChange_def quiet_stopStream split: option.splits)
     (auto simp: quiet_def split: option.splits)

lemma quiet_onTrack:
  "quiet sid s \<Longrightarrow> \<not> delivers sid (Track a streams now) s \<Longrightarrow>
   quiet sid (onTrack a streams now s)"
  by (auto simp: quiet_def delivers_def onTrack_def split: option.splits list.splits)

lemma quiet_viewer_step:
  assumes "quiet sid s" and "\<not> delivers sid ev s"
  shows "quiet sid (viewer_step ev s)"
proof (cases ev)
  case Render
  with assms(1) show ?thesis by (simp add: quiet_def render_def)
next
  case (Track a streams now)
  with assms show ?thesis by (simp add: quiet_onTrack)
qed (use assms(1) in \<open>simp_all add: quiet_sessionsChanged quiet_autoRequestEffect
      quiet_requestStream quiet_stopStream quiet_stop_related onReconnectFailed_def
      onDisconnect_def onUserLeft_def quiet_onOfferReceived quiet_onOfferSettled
      quiet_onIceCandidate quiet_onIceCandidateReceived quiet_onConnectionStateChange\<close>)

lemma not_quiet_delivered:
  "quiet sid s \<Longrightarrow> \<not> quiet sid (fold viewer_step evs s) \<Longrightarrow> delivered sid evs s"
proof (induction evs arbitrary: s)
  case Nil
  then show ?case by simp
next
  case (Cons ev evs)
  show ?case
  proof (cases "delivers sid ev s")
    case True
    then show ?thesis by simp
  next
    case False
    with Cons.prems(1) have "quiet sid (viewer_step ev s)" by (rule quiet_viewer_step)
    from Cons.IH [OF this] Cons.prems(2) show ?thesis by simp
  qed
qed

lemma live_only_after_delivery:
  assumes "map_option status (streamStates (viewer_run evs) sid) = Some Live"
  shows "delivered sid evs viewer_init"
proof -
  have "quiet sid viewer_init" by (simp add: quiet_def viewer_init_def)
  moreover from assms have "\<not> quiet sid (viewer_run evs)"
    by (auto simp: quiet_def)
  ultimately show ?thesis
    unfolding viewer_run_def by (rule not_quiet_delivered)
qed

text \<open>
  Claim C2, as stated, says that the track event is the only transition into \<open>Live\<close>.
  In the run \<open>ex_track_first\<close> the track event arrives during the negotiation and makes the
  session \<open>Live\<close>; the offer handler then resumes and sets the status back to
  \<open>Connecting\<close>, keeping the stream handle; the \<^verbatim>\<open>connected\<close> event of the transport is
  what sets the status to \<open>Live\<close> again.
\<close>

theorem connected_event_sets_live_counterexample:
  "map_option status (streamStates (viewer_run (ex_negotiating @ [Track 0 [ex_stream] 5])) ''s1'')
     = Some Live
   \<and> map_option status (streamStates (viewer_run ex_track_first) ''s1'') = Some Connecting
   \<and> map_option stream (streamStates (viewer_run ex_track_first) ''s1'') = Some (Some ex_stream)
   \<and> map_option status
        (streamStates (viewer_step (ConnectionStateChange 0 StateConnected 9)
                         (viewer_run ex_track_first)) ''s1'') = Some Live"
  by code_simp

text \<open>
  The same happens after a forced re-request of a live session: the entry keeps the stream
  handle of the previous link, and the \<^verbatim>\<open>connected\<close> event of the fresh connection, which
  has delivered no track, makes the session \<open>Live\<close>.
\<close>

lemma connected_event_sets_live_after_forced_request:
  "map_option status (streamStates (viewer_run ex_renegotiated) ''s1'') = Some Connecting
   \<and> ontrack (pcs (viewer_run ex_renegotiated) 1) = Some (''s1'', ''R2'')
   \<and> torn_down (pcs (viewer_run ex_renegotiated) 0)
   \<and> map_option status
        (streamStates (viewer_step (ConnectionStateChange 1 StateConnected 9)
                         (viewer_run ex_renegotiated)) ''s1'') = Some Live"
  by code_simp

text \<open>
  Claim C2, amended.  A session is \<open>Live\<close> only after a track event has delivered, on a
  connection whose track observer is attached for that session, a stream with at least one
  track.  One event changes the status of a session to \<open>Live\<close> only in two ways: it is
  such a track event, and then its first stream is stored as the session's stream handle;
  or it is a \<^verbatim>\<open>connected\<close> event on a connection whose state observer is attached for
  that session, and the snapshot read by the observer already holds a stream handle for
  the session with a status other than \<open>Live\<close>.  A \<^verbatim>\<open>connected\<close> event that finds no
  stream handle in the snapshot leaves the whole state unchanged.
\<close>

theorem live_by_track_or_connected_with_handle:
  "(map_option status (streamStates (viewer_run evs) sid) = Some Live
    \<longrightarrow> delivered sid evs viewer_init)
   \<and> (map_option status (streamStates (viewer_step ev s) sid) = Some Live
      \<and> map_option status (streamStates s sid) \<noteq> Some Live
    \<longrightarrow> (\<exists>a now senderSocketId remoteStream rest.
            ev = Track a (remoteStream # rest) now \<and> a < pcCount s
          \<and> ontrack (pcs s a) = Some (sid, senderSocketId)
          \<and> ms_tracks remoteStream \<noteq> []
          \<and> map_option stream (streamStates (viewer_step ev s) sid) = Some (Some remoteStream))
      \<or> (\<exists>a now currentState.
            ev = ConnectionStateChange a StateConnected now \<and> a < pcCount s
          \<and> onconnectionstatechange (pcs s a) = Some sid
          \<and> streamStatesRef s sid = Some currentState
          \<and> stream currentState \<noteq> None \<and> status currentState \<noteq> Live))
   \<and> (onconnectionstatechange (pcs s c) = Some sid
      \<and> (streamStatesRef s sid = None
          \<or> (\<exists>currentState. streamStatesRef s sid = Some currentState
                \<and> stream currentState = None))
    \<longrightarrow> viewer_step (ConnectionStateChange c StateConnected t) s = s)"
proof (intro conjI impI)
  assume "map_option status (streamStates (viewer_run evs) sid) = Some Live"
  then show "delivered sid evs viewer_init"
    by (rule live_only_after_delivery)
next
  assume h: "map_option status (streamStates (viewer_step ev s) sid) = Some Live
      \<and> map_option status (streamStates s sid) \<noteq> Some Live"
  then have nl: "not_live sid s" and l: "\<not> not_live sid (viewer_step ev s)"
    by (simp_all add: not_live_def entry_not_live_iff)
  from not_live_other_events [OF nl, of ev] l
  consider (track) a streams now where "ev = Track a streams now"
    | (connected) a now where "ev = ConnectionStateChange a StateConnected now"
    by blast
  then show "(\<exists>a now senderSocketId remoteStream rest.
            ev = Track a (remoteStream # rest) now \<and> a < pcCount s
          \<and> ontrack (pcs s a) = Some (sid, senderSocketId)
          \<and> ms_tracks remoteStream \<noteq> []
          \<and> map_option stream (streamStates (viewer_step ev s) sid) = Some (Some remoteStream))
      \<or> (\<exists>a now currentState.
            ev = ConnectionStateChange a StateConnected now \<and> a < pcCount s
          \<and> onconnectionstatechange (pcs s a) = Some sid
          \<and> streamStatesRef s sid = Some currentState
          \<and> stream currentState \<noteq> None \<and> status currentState \<noteq> Live)"
  proof cases
    case track
    with h live_by_track [of a streams now s sid] show ?thesis by auto
  next
    case connected
    with h live_by_connected [of a now s sid] show ?thesis by auto
  qed
next
  assume "onconnectionstatechange (pcs s c) = Some sid
      \<and> (streamStatesRef s sid = None
          \<or> (\<exists>currentState. streamStatesRef s sid = Some currentState
                \<and> stream currentState = None))"
  then show "viewer_step (ConnectionStateChange c StateConnected t) s = s"
    by (simp add: connected_without_handle)
qed

theorem live_by_track_or_connected_with_handle_witness:
  "map_option status (streamStates (viewer_run ex_connecting) ''s1'') = Some Connecting
   \<and> map_option status
        (streamStates (viewer_step (Track 0 [ex_stream] 5) (viewer_run ex_connecting)) ''s1'')
       = Some Live
   \<and> map_option stream
        (streamStates (viewer_step (Track 0 [ex_stream] 5) (viewer_run ex_connecting)) ''s1'')
       = Some (Some ex_stream)
   \<and> viewer_step (ConnectionStateChange 0 StateConnected 6) (viewer_run ex_connecting)
       = viewer_run ex_connecting
   \<and> map_option status (streamStates (viewer_run ex_live) ''s1'') = Some Live
   \<and> delivered ''s1'' ex_live viewer_init"
proof -
  let ?s = "viewer_run ex_connecting"
  have before: "map_option status (streamStates ?s ''s1'') = Some Connecting"
    by code_simp
  have after: "map_option status (streamStates (viewer_step (Track 0 [ex_stream] 5) ?s) ''s1'')
       = Some Live"
    by code_simp
  have obs: "onconnectionstatechange (pcs ?s 0) = Some ''s1''"
    by code_simp
  have "map_option stream (streamStatesRef ?s ''s1'') = Some None"
    by code_simp
  then have snap: "\<exists>currentState. streamStatesRef ?s ''s1'' = Some currentState
                     \<and> stream currentState = None"
    by auto
  have live: "map_option status (streamStates (viewer_run ex_live) ''s1'') = Some Live"
    by code_simp
  note c = live_by_track_or_connected_with_handle
    [where ev = "Track 0 [ex_stream] 5" and s = ?s and sid = "''s1''" and c = 0 and t = 6
       and evs = ex_live]
  from before have "map_option status (streamStates ?s ''s1'') \<noteq> Some Live"
    by (simp only: option.inject LiveStreamStatus.distinct not_False_eq_True)
  with after have "map_option status
        (streamStates (viewer_step (Track 0 [ex_stream] 5) ?s) ''s1'') = Some Live
      \<and> map_option status (streamStates ?s ''s1'') \<noteq> Some Live"
    by (rule conjI)
  with c have stored: "map_option stream
        (streamStates (viewer_step (Track 0 [ex_stream] 5) ?s) ''s1'') = Some (Some ex_stream)"
    by auto
  from c obs snap have same: "viewer_step (ConnectionStateChange 0 StateConnected 6) ?s = ?s"
    by blast
  from c live have "delivered ''s1'' ex_live viewer_init"
    by blast
  with before after stored same live show ?thesis by blast
qed

section \<open>The registries over a run\<close>

text \<open>
  Every handler of the viewer extends the store of connections, keeps a torn-down
  connection torn down, and registers only connections it has just constructed; a handler
  other than the offer handler for a sender \<open>r\<close> leaves a missing mapping entry of \<open>r\<close>
  missing.
\<close>

lemma evolves_refl [simp]: "evolves R s s"
  by (simp add: evolves_def)




















text \<open>The same for the handlers of the publisher.\<close>

lemma pub_evolves_refl [simp]: "pub_evolves R s s"
  by (simp add: pub_evolves_def)

























lemma requestStream_peersRef [simp]: "peersRef (requestStream sid force s) = peersRef s"
  by (simp add: requestStream_def ensureSocket_def Let_def split: option.splits)

































section \<open>Teardown of a link\<close>







text \<open>
  \<^verbatim>\<open>teardownPeer\<close> deletes the mapping entry only when the link's remote socket id is
  truthy: the entry of an empty socket id survives the teardown of its link.
\<close>

lemma empty_socket_id_keeps_its_mapping:
  "torn_down (pcs (viewer_run ex_stale_mapping) 0)
   \<and> peersRef (viewer_run ex_stale_mapping) ''s1''
       = Some \<lparr>pc = 1, peer_remoteSocketId = ''R2'', peer_examId = ''exam1''\<rparr>
   \<and> remoteSessionMap (viewer_run ex_stale_mapping) [] = Some ''s1''"
  by code_simp




section \<open>Repeated stream requests\<close>

text \<open>
  Claim C5 says that two calls of \<^verbatim>\<open>requestStream\<close> for the same idle session, without
  \<^verbatim>\<open>force\<close>, emit exactly one stream-request event.  The guard of \<^verbatim>\<open>requestStream\<close> reads
  the status from \<^verbatim>\<open>streamStatesRef\<close>, which still shows \<open>Idle\<close> until the next render;
  the marker set \<^verbatim>\<open>requestedSessionsRef\<close> is written and never read.  With the two calls
  in the same tick the event is emitted twice.
\<close>

theorem repeated_request_emits_twice:
  "map_option status (streamStatesRef (viewer_run ex_known) ''s1'') = Some Idle
   \<and> emitted (viewer_run ex_known) = []
   \<and> emitted (viewer_run ex_double_request)
       = [(''exam1'', ProctorRequestStream ''u1''), (''exam1'', ProctorRequestStream ''u1'')]
   \<and> ''s1'' \<in> requestedSessionsRef (viewer_run (ex_known @ [RequestStream ''s1'' False]))"
  by code_simp

text \<open>
  When a render separates the two calls, the second one finds the status \<open>Waiting\<close> and
  does nothing.
\<close>

lemma forced_request_then_render_blocks:
  assumes "List.find (\<lambda>x. session_id x = sessionId) (sessionsRef s) = Some session"
  shows "requestStream sessionId False (render (requestStream sessionId True s))
           = render (requestStream sessionId True s)"
proof -
  from assms have "blocks_request (streamStates (requestStream sessionId True s) sessionId)"
    by (simp add: requestStream_def ensureSocket_def Let_def blocks_request_def)
  then have "blocks_request (streamStatesRef (render (requestStream sessionId True s)) sessionId)"
    by (simp add: render_def)
  then show ?thesis
    by (simp add: requestStream_def split: option.splits)
qed

lemma second_request_after_render_is_dropped:
  assumes "List.find (\<lambda>x. session_id x = sessionId) (sessionsRef s) = Some session"
    and "\<not> blocks_request (streamStatesRef s sessionId)"
  shows "requestStream sessionId False (render (requestStream sessionId False s))
           = render (requestStream sessionId False s)"
proof -
  from assms(2) have "requestStream sessionId False s = requestStream sessionId True s"
    by (simp add: requestStream_def split: option.splits)
  with forced_request_then_render_blocks [OF assms(1)] show ?thesis by simp
qed

section \<open>One link per endpoint on the publisher\<close>

text \<open>
  Claim C1 says that at most one peer connection exists per identity, the existing one
  being torn down before a new one is created.  \<^verbatim>\<open>respondToProctorOfferRequest\<close> tears the
  existing connection of the proctor down before it awaits the camera and creates the new
  one after the \<^verbatim>\<open>await\<close>, without looking at the map again.  In \<open>pub_race\<close> two requests of
  the same proctor overlap in that \<^verbatim>\<open>await\<close>: the second continuation stores its connection
  over the first one's.  Connection \<open>0\<close> is no longer in the map, was never closed and
  still has both observers attached for \<open>R\<close>; connection \<open>1\<close> is the one in the map.
\<close>

theorem overlapping_offer_requests_leave_two_links:
  "peerConnections pub_race = [(''R'', 1)]
   \<and> \<not> isClosed (pub_pcs pub_race 0)
   \<and> onicecandidate (pub_pcs pub_race 0) = Some ''R''
   \<and> onconnectionstatechange (pub_pcs pub_race 0) = Some ''R''
   \<and> \<not> isClosed (pub_pcs pub_race 1)
   \<and> onconnectionstatechange (pub_pcs pub_race 1) = Some ''R''
   \<and> pub_pcLog pub_race
       = [(0, AssignOnicecandidate True), (0, AssignOnconnectionstatechange True),
          (1, AssignOnicecandidate True), (1, AssignOnconnectionstatechange True)]"
  by code_simp

text \<open>
  The stale connection still acts on the map: when its transport fails, its observer tears
  down the connection that is registered for \<open>R\<close> now, which is the other one.
\<close>

lemma stale_link_tears_down_current_link:
  "peerConnections (pub_onConnectionStateChange 0 StateFailed pub_race) = []
   \<and> isClosed (pub_pcs (pub_onConnectionStateChange 0 StateFailed pub_race) 1)
   \<and> \<not> isClosed (pub_pcs (pub_onConnectionStateChange 0 StateFailed pub_race) 0)"
  by code_simp

text \<open>
  With the camera running there is no suspension between teardown and creation, and a
  second request of the same proctor replaces the link as the claim says.
\<close>

lemma offer_request_replaces_link_when_camera_runs:
  assumes "socketConnected t = Some True" and "currentStream t = Some cameraStream"
    and "map_of (peerConnections t) proctorSocketId = Some existingPeer"
    and "existingPeer < pub_pcCount t"
  shows "torn_down (pub_pcs (respondToProctorOfferRequest proctorSocketId t) existingPeer)
       \<and> map_of (peerConnections (respondToProctorOfferRequest proctorSocketId t)) proctorSocketId
           = Some (pub_pcCount t)
       \<and> pub_pcLog (respondToProctorOfferRequest proctorSocketId t)
           = pub_pcLog t @ pub_teardown_calls existingPeer
               @ [(pub_pcCount t, AssignOnicecandidate True),
                  (pub_pcCount t, AssignOnconnectionstatechange True)]"
  using assms
  by (simp add: respondToProctorOfferRequest_def createPeerConnection_def Let_def
        teardownPeerConnection_pub_pcs teardownPeerConnection_pub_pcLog AList.update_conv')

end
